theory Spec2Isabelle
  imports Complex_Main
begin

section \<open>Numbers, cells and exceptions\<close>

text \<open>
  The monetary amounts of \<^verbatim>\<open>app.py\<close> are Python and pandas floats. The three special values
  of IEEE arithmetic are kept throughout, because the pandas division of
  \<^verbatim>\<open>calculate_financial_ratios\<close> produces them and pandas reads \<open>NaN\<close> as its null; there is
  one zero, without a sign. In the column arithmetic of pandas and in the audit comparison
  of the ingestion a finite float is idealised as a real number, without rounding error
  and without overflow. The scalar arithmetic of \<^verbatim>\<open>calculate_advanced_metrics\<close> is modelled in
  double precision, with the rounding and the overflow of every operation (section
  \<open>Double precision\<close>).
\<close>

datatype fl = Fin real | PInf | NInf | NaN

datatype exn =
    KeyError string
  | TypeError
  | ZeroDivisionError
  | OperationalError
  | IntegrityError
  | ProviderError string

fun fl_neg :: "fl \<Rightarrow> fl" where
  "fl_neg (Fin x) = Fin (- x)"
| "fl_neg PInf = NInf"
| "fl_neg NInf = PInf"
| "fl_neg NaN = NaN"

fun fl_add :: "fl \<Rightarrow> fl \<Rightarrow> fl" where
  "fl_add (Fin x) (Fin y) = Fin (x + y)"
| "fl_add (Fin x) PInf = PInf"
| "fl_add (Fin x) NInf = NInf"
| "fl_add PInf (Fin y) = PInf"
| "fl_add PInf PInf = PInf"
| "fl_add PInf NInf = NaN"
| "fl_add NInf (Fin y) = NInf"
| "fl_add NInf PInf = NaN"
| "fl_add NInf NInf = NInf"
| "fl_add NaN y = NaN"
| "fl_add x NaN = NaN"

definition fl_sub :: "fl \<Rightarrow> fl \<Rightarrow> fl" where
  "fl_sub x y = fl_add x (fl_neg y)"

fun fl_mul :: "fl \<Rightarrow> fl \<Rightarrow> fl" where
  "fl_mul (Fin x) (Fin y) = Fin (x * y)"
| "fl_mul (Fin x) PInf = (if x = 0 then NaN else if 0 < x then PInf else NInf)"
| "fl_mul (Fin x) NInf = (if x = 0 then NaN else if 0 < x then NInf else PInf)"
| "fl_mul PInf (Fin y) = (if y = 0 then NaN else if 0 < y then PInf else NInf)"
| "fl_mul NInf (Fin y) = (if y = 0 then NaN else if 0 < y then NInf else PInf)"
| "fl_mul PInf PInf = PInf"
| "fl_mul PInf NInf = NInf"
| "fl_mul NInf PInf = NInf"
| "fl_mul NInf NInf = PInf"
| "fl_mul NaN y = NaN"
| "fl_mul x NaN = NaN"

text \<open>
  Division as numpy does it on a float column: a zero divisor gives an infinity of the
  dividend's sign, and \<open>0 / 0\<close> gives \<open>NaN\<close>; nothing is raised.
\<close>

fun np_div :: "fl \<Rightarrow> fl \<Rightarrow> fl" where
  "np_div (Fin x) (Fin y) =
     (if y = 0 then (if x = 0 then NaN else if 0 < x then PInf else NInf)
      else Fin (x / y))"
| "np_div (Fin x) PInf = Fin 0"
| "np_div (Fin x) NInf = Fin 0"
| "np_div PInf (Fin y) = (if 0 \<le> y then PInf else NInf)"
| "np_div NInf (Fin y) = (if 0 \<le> y then NInf else PInf)"
| "np_div PInf PInf = NaN"
| "np_div PInf NInf = NaN"
| "np_div NInf PInf = NaN"
| "np_div NInf NInf = NaN"
| "np_div NaN y = NaN"
| "np_div x NaN = NaN"

fun fl_abs :: "fl \<Rightarrow> fl" where
  "fl_abs (Fin x) = Fin \<bar>x\<bar>"
| "fl_abs PInf = PInf"
| "fl_abs NInf = PInf"
| "fl_abs NaN = NaN"

text \<open>Comparisons: every comparison with \<open>NaN\<close> is false, also \<open>NaN == NaN\<close>.\<close>

fun fl_lt :: "fl \<Rightarrow> fl \<Rightarrow> bool" where
  "fl_lt (Fin x) (Fin y) = (x < y)"
| "fl_lt (Fin x) PInf = True"
| "fl_lt NInf (Fin y) = True"
| "fl_lt NInf PInf = True"
| "fl_lt x y = False"

definition fl_eq :: "fl \<Rightarrow> fl \<Rightarrow> bool" where
  "fl_eq x y = (x = y \<and> x \<noteq> NaN)"

text \<open>
  Rounding to \<open>n\<close> decimals, ties to the even neighbour; an infinity or a \<open>NaN\<close> is returned
  as it is. \<open>py_round\<close> is the rounding of the pandas \<^verbatim>\<open>Series.round(n)\<close> in the idealised
  column arithmetic.
\<close>

definition round_half_even :: "real \<Rightarrow> int" where
  "round_half_even x =
     (let f = \<lfloor>x\<rfloor>; d = x - of_int f
      in if d < 1 / 2 then f
         else if 1 / 2 < d then f + 1
         else if even f then f else f + 1)"

definition round_dec :: "nat \<Rightarrow> real \<Rightarrow> real" where
  "round_dec n x = of_int (round_half_even (x * 10 ^ n)) / 10 ^ n"

fun py_round :: "fl \<Rightarrow> nat \<Rightarrow> fl" where
  "py_round (Fin x) n = Fin (round_dec n x)"
| "py_round PInf n = PInf"
| "py_round NInf n = NInf"
| "py_round NaN n = NaN"

text \<open>
  A cell of a table is a string (the ticker) or a number. A Python \<^verbatim>\<open>None\<close> in a numeric
  column is the cell \<open>N NaN\<close>: pandas stores both as its null, and \<^verbatim>\<open>isna\<close> and
  \<^verbatim>\<open>dropna\<close> treat them alike. An infinity is not a null.
\<close>

datatype cell = S string | N fl

fun is_null :: "cell \<Rightarrow> bool" where
  "is_null (N NaN) = True"
| "is_null c = False"

text \<open>Sequencing of steps that may raise: the first exception ends the computation.\<close>

definition bindx :: "exn + 'a \<Rightarrow> ('a \<Rightarrow> exn + 'b) \<Rightarrow> exn + 'b" where
  "bindx m f = (case m of Inl e \<Rightarrow> Inl e | Inr v \<Rightarrow> f v)"

section \<open>Double precision\<close>

text \<open>
  A Python float is an IEEE binary64 number: its finite values are the products \<open>m * 2 ^ q\<close>
  of an integer \<open>m\<close> of at most 53 bits and a power of two with \<open>-1074 \<le> q \<le> 971\<close>. An
  operation on finite operands yields the exact result rounded to the nearest such value,
  ties to the even \<open>m\<close>, and an infinity when the rounded value reaches \<open>2 ^ 1024\<close>.

  \<open>expo x\<close> is the exponent of the leading bit of a positive \<open>x\<close>, the integer part of its
  binary logarithm; \<open>pow2 q\<close> is the power \<open>2 ^ q\<close> for an integer \<open>q\<close> of either sign;
  \<open>near64 x\<close> is the nearest value of 53 bits, the exponent of its last bit being at least
  \<open>-1074\<close>.
\<close>

function expo :: "real \<Rightarrow> int" where
  "expo x = (if 2 \<le> x then expo (x / 2) + 1
             else if 0 < x \<and> x < 1 then expo (x * 2) - 1
             else 0)"
  by auto
termination
proof (relation "measure (\<lambda>x. nat \<bar>\<lfloor>log 2 x\<rfloor>\<bar>)")
  show "wf (measure (\<lambda>x. nat \<bar>\<lfloor>log 2 x\<rfloor>\<bar>))" by simp
next
  fix x :: real
  assume x: "2 \<le> x"
  then have "log 2 (x / 2) = log 2 x - 1"
    by (simp add: log_divide)
  moreover from x have "1 \<le> log 2 x"
    by (simp add: le_log_iff)
  ultimately have "\<lfloor>log 2 (x / 2)\<rfloor> = \<lfloor>log 2 x\<rfloor> - 1" "1 \<le> \<lfloor>log 2 x\<rfloor>"
    by (simp_all add: le_floor_iff)
  then show "(x / 2, x) \<in> measure (\<lambda>x. nat \<bar>\<lfloor>log 2 x\<rfloor>\<bar>)"
    by simp
next
  fix x :: real
  assume "\<not> 2 \<le> x" and x: "0 < x \<and> x < 1"
  then have "log 2 (x * 2) = log 2 x + 1"
    by (simp add: log_mult)
  moreover from x have "log 2 x < 0"
    by simp
  ultimately have a: "\<lfloor>log 2 (x * 2)\<rfloor> = \<lfloor>log 2 x\<rfloor> + 1"
    and b: "\<lfloor>log 2 x\<rfloor> < 0"
    by (simp_all add: floor_less_iff)
  from b have "nat \<bar>\<lfloor>log 2 x\<rfloor> + 1\<bar> < nat \<bar>\<lfloor>log 2 x\<rfloor>\<bar>"
    by linarith
  then show "(x * 2, x) \<in> measure (\<lambda>x. nat \<bar>\<lfloor>log 2 x\<rfloor>\<bar>)"
    by (simp only: in_measure a)
qed

declare expo.simps [simp del]

definition pow2 :: "int \<Rightarrow> real" where
  "pow2 q = (if 0 \<le> q then 2 ^ nat q else 1 / 2 ^ nat (- q))"

definition near64 :: "real \<Rightarrow> real" where
  "near64 x =
     (let q = max (expo \<bar>x\<bar> - 52) (- 1074)
      in of_int (round_half_even (x / pow2 q)) * pow2 q)"

definition round64 :: "real \<Rightarrow> fl" where
  "round64 x =
     (if 2 ^ 1024 \<le> \<bar>near64 x\<bar> then (if 0 < x then PInf else NInf)
      else Fin (near64 x))"

text \<open>
  The operations of Python floats: the result of the exact operation, which settles the
  special values, is rounded. The division raises for a zero divisor. \<^verbatim>\<open>round(x, n)\<close>
  rounds the exact value of the float to \<open>n\<close> decimals and returns the float nearest to
  that decimal number.
\<close>

fun rounded :: "fl \<Rightarrow> fl" where
  "rounded (Fin x) = round64 x"
| "rounded PInf = PInf"
| "rounded NInf = NInf"
| "rounded NaN = NaN"

definition f64_add :: "fl \<Rightarrow> fl \<Rightarrow> fl" where
  "f64_add x y = rounded (fl_add x y)"

definition f64_sub :: "fl \<Rightarrow> fl \<Rightarrow> fl" where
  "f64_sub x y = rounded (fl_sub x y)"

definition f64_mul :: "fl \<Rightarrow> fl \<Rightarrow> fl" where
  "f64_mul x y = rounded (fl_mul x y)"

definition f64_div :: "fl \<Rightarrow> fl \<Rightarrow> fl" where
  "f64_div x y = rounded (np_div x y)"

definition py_div :: "fl \<Rightarrow> fl \<Rightarrow> exn + fl" where
  "py_div x y = (if y = Fin 0 then Inl ZeroDivisionError else Inr (f64_div x y))"

fun float_round :: "fl \<Rightarrow> nat \<Rightarrow> fl" where
  "float_round (Fin x) n = round64 (round_dec n x)"
| "float_round PInf n = PInf"
| "float_round NInf n = NInf"
| "float_round NaN n = NaN"

section \<open>Ratio engine\<close>

subsection \<open>\<^verbatim>\<open>calculate_advanced_metrics\<close>\<close>

text \<open>
  The row handed over by \<^verbatim>\<open>DataFrame.apply(..., axis=1)\<close> maps column names to cells; its
  numbers are Python floats. \<^verbatim>\<open>row[k]\<close> raises \<^verbatim>\<open>KeyError\<close> for a missing column;
  arithmetic on a string raises \<^verbatim>\<open>TypeError\<close>.
\<close>

type_synonym row = "(string \<times> cell) list"

definition getitem :: "row \<Rightarrow> string \<Rightarrow> exn + cell" where
  "getitem r k = (case map_of r k of None \<Rightarrow> Inl (KeyError k) | Some c \<Rightarrow> Inr c)"

fun cell_eq0 :: "cell \<Rightarrow> bool" where
  "cell_eq0 (N x) = fl_eq x (Fin 0)"
| "cell_eq0 (S s) = False"

fun cell_sub :: "cell \<Rightarrow> cell \<Rightarrow> exn + cell" where
  "cell_sub (N x) (N y) = Inr (N (f64_sub x y))"
| "cell_sub a b = Inl TypeError"

fun cell_add :: "cell \<Rightarrow> cell \<Rightarrow> exn + cell" where
  "cell_add (N x) (N y) = Inr (N (f64_add x y))"
| "cell_add a b = Inl TypeError"

fun cell_div :: "cell \<Rightarrow> cell \<Rightarrow> exn + cell" where
  "cell_div (N x) (N y) = map_sum id N (py_div x y)"
| "cell_div a b = Inl TypeError"

text \<open>The product with a literal such as \<^verbatim>\<open>1.2\<close>, which is the float nearest to it.\<close>

fun cell_scale :: "real \<Rightarrow> cell \<Rightarrow> exn + cell" where
  "cell_scale k (N x) = Inr (N (f64_mul (round64 k) x))"
| "cell_scale k (S s) = Inl TypeError"

fun cell_round :: "cell \<Rightarrow> nat \<Rightarrow> exn + cell" where
  "cell_round (N x) n = Inr (N (float_round x n))"
| "cell_round (S s) n = Inl TypeError"

text \<open>
  The body of the \<^verbatim>\<open>try\<close>. The result \<open>None\<close> is the \<^verbatim>\<open>return None\<close> of the zero test.
  The row does not change during the call, so each column is read once, where the source
  reads it first.
\<close>

definition zero_test :: "row \<Rightarrow> exn + bool" where
  "zero_test r =
     bindx (getitem r ''assets'') (\<lambda>a.
       if cell_eq0 a then Inr True
       else bindx (getitem r ''liabilities'') (\<lambda>l. Inr (cell_eq0 l)))"

definition liquidity :: "row \<Rightarrow> exn + cell" where
  "liquidity r =
     bindx (getitem r ''assets'') (\<lambda>a.
     bindx (getitem r ''liabilities'') (\<lambda>l.
     bindx (cell_sub a l) (\<lambda>d. cell_div d a)))"

definition profitability :: "row \<Rightarrow> exn + cell" where
  "profitability r =
     bindx (getitem r ''assets'') (\<lambda>a.
       if \<not> cell_eq0 a
       then bindx (getitem r ''net_income'') (\<lambda>ni. cell_div ni a)
       else Inr (N (Fin 0)))"

definition leverage :: "row \<Rightarrow> exn + cell" where
  "leverage r =
     bindx (getitem r ''equity'') (\<lambda>e.
     bindx (getitem r ''liabilities'') (\<lambda>l. cell_div e l))"

definition z_score :: "row \<Rightarrow> exn + cell" where
  "z_score r =
     bindx (liquidity r) (\<lambda>lq.
     bindx (profitability r) (\<lambda>pf.
     bindx (cell_scale (12 / 10) lq) (\<lambda>t1.
     bindx (cell_scale (33 / 10) pf) (\<lambda>t2.
     bindx (cell_add t1 t2) (\<lambda>s12.
     bindx (leverage r) (\<lambda>lv.
     bindx (cell_scale (6 / 10) lv) (\<lambda>t3.
     cell_add s12 t3)))))))"

definition metrics_body :: "row \<Rightarrow> exn + cell option" where
  "metrics_body r =
     bindx (zero_test r) (\<lambda>z.
       if z then Inr None
       else bindx (z_score r) (\<lambda>zs.
            bindx (cell_round zs 2) (\<lambda>v. Inr (Some v))))"

text \<open>The bare \<^verbatim>\<open>except\<close> turns every exception of the body into \<^verbatim>\<open>None\<close>.\<close>

definition calculate_advanced_metrics :: "row \<Rightarrow> cell option" where
  "calculate_advanced_metrics r =
     (case metrics_body r of Inl e \<Rightarrow> None | Inr v \<Rightarrow> v)"

text \<open>
  The value a row gets in the column \<^verbatim>\<open>Altman_Z_Score\<close>: a returned \<^verbatim>\<open>None\<close> is stored
  as the null of the column.
\<close>

definition altman_cell :: "row \<Rightarrow> cell" where
  "altman_cell r = (case calculate_advanced_metrics r of None \<Rightarrow> N NaN | Some c \<Rightarrow> c)"

subsection \<open>\<^verbatim>\<open>calculate_financial_ratios\<close>\<close>

text \<open>
  A DataFrame is the list of its columns, in column order; all columns have the length
  of the index. The numeric columns hold \<open>N\<close> cells, the ticker column \<open>S\<close> cells.
\<close>

type_synonym series = "cell list"
type_synonym frame = "(string \<times> series) list"

definition has_col :: "frame \<Rightarrow> string \<Rightarrow> bool" where
  "has_col f k = (map_of f k \<noteq> None)"

definition df_getitem :: "frame \<Rightarrow> string \<Rightarrow> exn + series" where
  "df_getitem f k = (case map_of f k of None \<Rightarrow> Inl (KeyError k) | Some s \<Rightarrow> Inr s)"

fun nrows :: "frame \<Rightarrow> nat" where
  "nrows [] = 0"
| "nrows ((k, s) # f) = length s"

text \<open>\<^verbatim>\<open>df[k] = s\<close>: an existing column is replaced in place, a new one is appended.\<close>

fun set_col :: "string \<Rightarrow> series \<Rightarrow> frame \<Rightarrow> frame" where
  "set_col k s [] = [(k, s)]"
| "set_col k s ((k', s') # f) =
     (if k = k' then (k, s) # f else (k', s') # set_col k s f)"

fun num_of :: "cell \<Rightarrow> exn + fl" where
  "num_of (N x) = Inr x"
| "num_of (S s) = Inl TypeError"

fun as_floats :: "series \<Rightarrow> exn + fl list" where
  "as_floats [] = Inr []"
| "as_floats (c # cs) =
     bindx (num_of c) (\<lambda>x. bindx (as_floats cs) (\<lambda>xs. Inr (x # xs)))"

text \<open>
  Element-wise division of two columns of one frame; a string operand raises
  \<^verbatim>\<open>TypeError\<close>, a zero divisor does not raise.
\<close>

definition series_div :: "series \<Rightarrow> series \<Rightarrow> exn + series" where
  "series_div a b =
     bindx (as_floats a) (\<lambda>xs.
     bindx (as_floats b) (\<lambda>ys.
     Inr (map (\<lambda>(x, y). N (np_div x y)) (zip xs ys))))"

fun series_round :: "nat \<Rightarrow> series \<Rightarrow> series" where
  "series_round n [] = []"
| "series_round n (N x # cs) = N (py_round x n) # series_round n cs"
| "series_round n (S s # cs) = S s # series_round n cs"

text \<open>
  The right-hand side of one assignment,
  \<^verbatim>\<open>(df[num] / df[den]).round(4) if guard in df.columns else None\<close>.
\<close>

definition ratio_col :: "string \<Rightarrow> string \<Rightarrow> string \<Rightarrow> frame \<Rightarrow> exn + series" where
  "ratio_col guard num den f =
     (if has_col f guard
      then bindx (df_getitem f num) (\<lambda>a.
           bindx (df_getitem f den) (\<lambda>b.
           bindx (series_div a b) (\<lambda>q. Inr (series_round 4 q))))
      else Inr (replicate (nrows f) (N NaN)))"

definition assign_ratio ::
  "string \<Rightarrow> string \<Rightarrow> string \<Rightarrow> string \<Rightarrow> frame \<Rightarrow> exn + frame" where
  "assign_ratio name guard num den f =
     bindx (ratio_col guard num den f) (\<lambda>s. Inr (set_col name s f))"

text \<open>
  The four assignments of the body, in source order. A statement that raises leaves the
  frame as the statements before it made it.
\<close>

definition ratio_stmts :: "(frame \<Rightarrow> exn + frame) list" where
  "ratio_stmts =
     [assign_ratio ''ROE'' ''equity'' ''net_income'' ''equity'',
      assign_ratio ''Debt_to_Equity'' ''equity'' ''liabilities'' ''equity'',
      assign_ratio ''Profit_Margin'' ''revenue'' ''net_income'' ''revenue'',
      assign_ratio ''Asset_Turnover'' ''assets'' ''revenue'' ''assets'']"

fun run_stmts :: "(frame \<Rightarrow> exn + frame) list \<Rightarrow> frame \<Rightarrow> exn option \<times> frame" where
  "run_stmts [] f = (None, f)"
| "run_stmts (st # sts) f =
     (case st f of Inl e \<Rightarrow> (Some e, f) | Inr f' \<Rightarrow> run_stmts sts f')"

text \<open>
  DataFrames are objects: the caller's variable holds a reference into a store of frames.
  \<^verbatim>\<open>df = df.copy()\<close> allocates a new object (a deep copy) and rebinds the local name to
  it; the assignments then write to that object. The function returns the reference of
  the copy, or raises; the store is returned in both cases.
\<close>

type_synonym ref = nat
type_synonym heap = "frame list"

definition df_copy :: "heap \<Rightarrow> ref \<Rightarrow> ref \<times> heap" where
  "df_copy h r = (length h, h @ [h ! r])"

definition calculate_financial_ratios :: "heap \<Rightarrow> ref \<Rightarrow> (exn + ref) \<times> heap" where
  "calculate_financial_ratios h r =
     (let (p, h0) = df_copy h r;
          (e, g) = run_stmts ratio_stmts (h0 ! p)
      in ((case e of None \<Rightarrow> Inr p | Some x \<Rightarrow> Inl x), h0[p := g]))"

section \<open>The filings provider and the messages shown to the user\<close>

text \<open>
  The provider (the \<^verbatim>\<open>edgar\<close> package) is external: it is a parameter of the pipeline.
  For a ticker it raises (\<open>Fails\<close> stands for an exception of any provider call made in
  the \<^verbatim>\<open>try\<close> body), has no 10-K (\<^verbatim>\<open>filings.empty\<close>), or yields the latest filing. A figure of
  the financial summary is a number or \<^verbatim>\<open>None\<close>.
\<close>

type_synonym pyval = "fl option"

datatype fdate = Date nat nat nat | DateTime nat nat nat nat nat nat | OtherDate string

record filing =
  f_revenue :: pyval
  f_net_income :: pyval
  f_total_assets :: pyval
  f_total_equity :: pyval
  f_total_liabilities :: pyval
  f_company_name :: string
  f_cik :: int
  f_filing_date :: fdate

datatype lookup = Fails exn | NoFiling | Latest filing

type_synonym provider = "string \<Rightarrow> lookup"

text \<open>
  The calls of \<^verbatim>\<open>st.warning\<close>, \<^verbatim>\<open>st.error\<close>, \<^verbatim>\<open>st.success\<close> and \<^verbatim>\<open>st.info\<close>, in the order
  they are made, with the values formatted into their texts. The progress bar and the
  status line are emptied at the end of a fetch and are left out.
\<close>

datatype msg =
    Warning_no_10k string
  | Error_for string exn
  | Saved_to_sqlite nat
  | Synced_to_mongodb nat
  | Mongo_not_available
  | Loaded_from_sqlite nat
  | No_data_in_sqlite
  | Sqlite_error exn
  | Loaded_from_mongodb nat nat
  | No_data_in_mongodb
  | Mongo_not_connected
  | Query_returned nat
  | Invalid_sql exn

text \<open>The result of one turn of a fetch loop.\<close>

datatype 'a item = Skipped | Failed exn | Got 'a

fun to_fl :: "pyval \<Rightarrow> fl" where
  "to_fl None = NaN"
| "to_fl (Some x) = x"

definition to_cell :: "pyval \<Rightarrow> cell" where
  "to_cell v = N (to_fl v)"

fun py_add :: "pyval \<Rightarrow> pyval \<Rightarrow> exn + fl" where
  "py_add (Some x) (Some y) = Inr (fl_add x y)"
| "py_add a b = Inl TypeError"

fun py_sub :: "pyval \<Rightarrow> exn + fl \<Rightarrow> exn + fl" where
  "py_sub a (Inl e) = Inl e"
| "py_sub (Some x) (Inr y) = Inr (fl_sub x y)"
| "py_sub None (Inr y) = Inl TypeError"

section \<open>Relational store\<close>

text \<open>
  The file \<^verbatim>\<open>finance_warehouse.db\<close> holds the table \<^verbatim>\<open>financials\<close> or does not (\<open>None\<close>).
  A table has its columns, its primary-key columns (none when the list is empty) and its
  rows; a row gives every column a cell, the SQL \<^verbatim>\<open>NULL\<close> being \<open>N NaN\<close>.
\<close>

record table =
  t_cols :: "string list"
  t_pkey :: "string list"
  t_rows :: "row list"

type_synonym sqlite_db = "table option"

text \<open>\<^verbatim>\<open>CREATE TABLE IF NOT EXISTS financials (...)\<close>: an existing table is left as it is.\<close>

definition financials_schema :: table where
  "financials_schema =
     \<lparr>t_cols = [''ticker'', ''year'', ''revenue'', ''net_income'', ''assets'',
                ''liabilities'', ''equity''],
      t_pkey = [''ticker'', ''year''],
      t_rows = []\<rparr>"

definition init_sqlite_db :: "sqlite_db \<Rightarrow> sqlite_db" where
  "init_sqlite_db db = (case db of None \<Rightarrow> Some financials_schema | Some tb \<Rightarrow> Some tb)"

definition cell_of :: "row \<Rightarrow> string \<Rightarrow> cell" where
  "cell_of r k = (case map_of r k of None \<Rightarrow> N NaN | Some c \<Rightarrow> c)"

definition conform :: "string list \<Rightarrow> row \<Rightarrow> row" where
  "conform cols r = map (\<lambda>k. (k, cell_of r k)) cols"

definition key_of :: "string list \<Rightarrow> row \<Rightarrow> cell list" where
  "key_of pk r = map (cell_of r) pk"

text \<open>
  The primary key: no two rows agree on all key columns. As SQLite does for a key that is
  not the row id, a key with a \<^verbatim>\<open>NULL\<close> in it conflicts with no other key.
\<close>

definition pkey_ok :: "string list \<Rightarrow> row list \<Rightarrow> bool" where
  "pkey_ok pk rs =
     (pk = [] \<or> distinct (filter (\<lambda>k. \<not> list_ex is_null k) (map (key_of pk) rs)))"

text \<open>
  The multi-row \<^verbatim>\<open>INSERT\<close> that \<^verbatim>\<open>DataFrame.to_sql(..., if_exists="append", method="multi")\<close>
  issues names every column of the frame. SQLite rejects it with \<^verbatim>\<open>OperationalError\<close>
  when the table lacks one of these columns, and with \<^verbatim>\<open>IntegrityError\<close> when a key would
  occur twice; pandas runs it in one transaction, rolls back on an exception and raises
  it again, so a rejected insert stores nothing.
\<close>

definition insert_rows :: "row list \<Rightarrow> table \<Rightarrow> exn + table" where
  "insert_rows rs tb =
     (if \<not> list_all (\<lambda>r. list_all (\<lambda>k. k \<in> set (t_cols tb)) (map fst r)) rs
      then Inl OperationalError
      else let rows' = t_rows tb @ map (conform (t_cols tb)) rs
           in if pkey_ok (t_pkey tb) rows' then Inr (tb\<lparr>t_rows := rows'\<rparr>)
              else Inl IntegrityError)"

fun frame_columns :: "row list \<Rightarrow> string list" where
  "frame_columns [] = []"
| "frame_columns (r # rs) = map fst r"

text \<open>When the table does not exist, \<^verbatim>\<open>to_sql\<close> creates it from the frame, without a key.\<close>

definition to_sql_append :: "row list \<Rightarrow> sqlite_db \<Rightarrow> exn + sqlite_db" where
  "to_sql_append rs db =
     (case db of
        None \<Rightarrow> Inr (Some \<lparr>t_cols = frame_columns rs, t_pkey = [], t_rows = rs\<rparr>)
      | Some tb \<Rightarrow> map_sum id Some (insert_rows rs tb))"

subsection \<open>\<^verbatim>\<open>fetch_to_sqlite\<close>\<close>

text \<open>
  \<^verbatim>\<open>1 if abs(data['assets'] - (data['liabilities'] + data['equity'])) < 1e6 else 0\<close>;
  arithmetic on \<^verbatim>\<open>None\<close> raises \<^verbatim>\<open>TypeError\<close>.
\<close>

definition audit_sqlite :: "pyval \<Rightarrow> pyval \<Rightarrow> pyval \<Rightarrow> exn + int" where
  "audit_sqlite a l e =
     bindx (py_sub a (py_add l e)) (\<lambda>d.
       Inr (if fl_lt (fl_abs d) (Fin 1000000) then 1 else 0))"

text \<open>
  The dictionary \<^verbatim>\<open>data\<close>, with the key \<^verbatim>\<open>audit_pass\<close> that is added to it after the
  others.
\<close>

definition record_of :: "string \<Rightarrow> int \<Rightarrow> filing \<Rightarrow> int \<Rightarrow> row" where
  "record_of t yr f ap =
     [(''ticker'', S t),
      (''year'', N (Fin (of_int yr))),
      (''revenue'', to_cell (f_revenue f)),
      (''net_income'', to_cell (f_net_income f)),
      (''assets'', to_cell (f_total_assets f)),
      (''equity'', to_cell (f_total_equity f)),
      (''liabilities'', to_cell (f_total_liabilities f)),
      (''audit_pass'', N (Fin (of_int ap)))]"

text \<open>The \<^verbatim>\<open>try\<close> body for one ticker; \<open>yr\<close> is \<^verbatim>\<open>datetime.datetime.now().year\<close>.\<close>

definition sqlite_item :: "provider \<Rightarrow> int \<Rightarrow> string \<Rightarrow> row item" where
  "sqlite_item prov yr t =
     (case prov t of
        Fails e \<Rightarrow> Failed e
      | NoFiling \<Rightarrow> Skipped
      | Latest f \<Rightarrow>
          (case audit_sqlite (f_total_assets f) (f_total_liabilities f) (f_total_equity f) of
             Inl e \<Rightarrow> Failed e
           | Inr ap \<Rightarrow> Got (record_of t yr f ap)))"

text \<open>The \<^verbatim>\<open>for\<close> loop: \<open>results\<close> and the messages grow from turn to turn.\<close>

fun sqlite_loop ::
  "provider \<Rightarrow> int \<Rightarrow> string list \<Rightarrow> row list \<Rightarrow> msg list \<Rightarrow> row list \<times> msg list" where
  "sqlite_loop prov yr [] results msgs = (results, msgs)"
| "sqlite_loop prov yr (t # ts) results msgs =
     (case sqlite_item prov yr t of
        Skipped \<Rightarrow> sqlite_loop prov yr ts results (msgs @ [Warning_no_10k t])
      | Failed e \<Rightarrow> sqlite_loop prov yr ts results (msgs @ [Error_for t e])
      | Got d \<Rightarrow> sqlite_loop prov yr ts (results @ [d]) msgs)"

text \<open>
  The whole call. The first component is the exception that reaches the caller, if any:
  \<^verbatim>\<open>to_sql\<close> is called after the loop, outside every \<^verbatim>\<open>try\<close>.
\<close>

definition fetch_to_sqlite ::
  "provider \<Rightarrow> int \<Rightarrow> string list \<Rightarrow> sqlite_db \<Rightarrow> exn option \<times> sqlite_db \<times> msg list" where
  "fetch_to_sqlite prov yr tickers db =
     (let (results, msgs) = sqlite_loop prov yr tickers [] []
      in if results \<noteq> []
         then (case to_sql_append results db of
                 Inl e \<Rightarrow> (Some e, db, msgs)
               | Inr db' \<Rightarrow> (None, db', msgs @ [Saved_to_sqlite (length results)]))
         else (None, db, msgs))"

text \<open>The read path: \<^verbatim>\<open>pd.read_sql("SELECT * FROM financials", conn)\<close> inside a \<^verbatim>\<open>try\<close>.\<close>

definition frame_of_table :: "table \<Rightarrow> frame" where
  "frame_of_table tb = map (\<lambda>k. (k, map (\<lambda>r. cell_of r k) (t_rows tb))) (t_cols tb)"

definition sqlite_read :: "sqlite_db \<Rightarrow> frame \<times> msg" where
  "sqlite_read db =
     (case db of
        None \<Rightarrow> ([], Sqlite_error OperationalError)
      | Some tb \<Rightarrow>
          (frame_of_table tb,
           if t_rows tb \<noteq> [] then Loaded_from_sqlite (length (t_rows tb))
           else No_data_in_sqlite))"

section \<open>Document store\<close>

text \<open>
  A document of the collection \<^verbatim>\<open>filings\<close>, with the nested fields of \<^verbatim>\<open>financials\<close> and
  \<^verbatim>\<open>metadata\<close> flattened into the record. There is no equity and no year in it.
\<close>

record document =
  d_ticker :: string
  d_timestamp :: nat
  d_report_type :: string
  d_revenue :: pyval
  d_net_income :: pyval
  d_total_assets :: pyval
  d_total_liabilities :: pyval
  d_company_name :: string
  d_cik :: int
  d_filing_date :: fdate
  d_audit_pass :: int

type_synonym collection = "document list"

text \<open>
  The machine may run a server on each port; a server that answers holds its collection.
  A server that has answered is taken to answer for the rest of the call and to accept
  every document.
\<close>

type_synonym mongo = "nat \<Rightarrow> collection option"

text \<open>\<^verbatim>\<open>get_mongo_client\<close>: the first of the two ports whose server answers.\<close>

fun first_port :: "mongo \<Rightarrow> nat list \<Rightarrow> nat option" where
  "first_port m [] = None"
| "first_port m (p # ps) = (case m p of Some c \<Rightarrow> Some p | None \<Rightarrow> first_port m ps)"

definition get_mongo_client :: "mongo \<Rightarrow> nat option" where
  "get_mongo_client m = first_port m [27017, 27018]"

definition collection_at :: "mongo \<Rightarrow> nat \<Rightarrow> collection" where
  "collection_at m p = (case m p of None \<Rightarrow> [] | Some c \<Rightarrow> c)"

text \<open>
  \<^verbatim>\<open>collection.update_one({"ticker": t}, {"$set": document}, upsert=True)\<close>: the first
  document with this ticker gets every field of the new one; without such a document
  the new one is inserted.
\<close>

fun update_one :: "document \<Rightarrow> collection \<Rightarrow> collection" where
  "update_one d [] = [d]"
| "update_one d (x # xs) =
     (if d_ticker x = d_ticker d then d # xs else x # update_one d xs)"

subsection \<open>\<^verbatim>\<open>fetch_to_mongodb\<close>\<close>

text \<open>\<^verbatim>\<open>1 if a > 0 else 0\<close>; comparing \<^verbatim>\<open>None\<close> with \<open>0\<close> raises \<^verbatim>\<open>TypeError\<close>.\<close>

fun audit_mongo :: "pyval \<Rightarrow> exn + int" where
  "audit_mongo None = Inl TypeError"
| "audit_mongo (Some a) = Inr (if fl_lt (Fin 0) a then 1 else 0)"

fun to_datetime :: "fdate \<Rightarrow> fdate" where
  "to_datetime (Date y m d) = DateTime y m d 0 0 0"
| "to_datetime x = x"

text \<open>
  The dictionary \<^verbatim>\<open>document\<close>, with the key \<^verbatim>\<open>audit_pass\<close> that is added to it after
  the others.
\<close>

definition doc_of :: "string \<Rightarrow> nat \<Rightarrow> filing \<Rightarrow> int \<Rightarrow> document" where
  "doc_of t now f ap =
     \<lparr>d_ticker = t, d_timestamp = now, d_report_type = ''10-K'',
      d_revenue = f_revenue f, d_net_income = f_net_income f,
      d_total_assets = f_total_assets f, d_total_liabilities = f_total_liabilities f,
      d_company_name = f_company_name f, d_cik = f_cik f,
      d_filing_date = to_datetime (f_filing_date f), d_audit_pass = ap\<rparr>"

text \<open>The \<^verbatim>\<open>try\<close> body up to the upsert; \<open>now\<close> is \<^verbatim>\<open>datetime.datetime.now()\<close>.\<close>

definition mongo_item :: "provider \<Rightarrow> nat \<Rightarrow> string \<Rightarrow> document item" where
  "mongo_item prov now t =
     (case prov t of
        Fails e \<Rightarrow> Failed e
      | NoFiling \<Rightarrow> Skipped
      | Latest f \<Rightarrow>
          (case audit_mongo (f_total_assets f) of
             Inl e \<Rightarrow> Failed e
           | Inr ap \<Rightarrow> Got (doc_of t now f ap)))"

fun mongo_loop ::
  "provider \<Rightarrow> nat \<Rightarrow> string list \<Rightarrow> collection \<Rightarrow> msg list \<Rightarrow> collection \<times> msg list" where
  "mongo_loop prov now [] coll msgs = (coll, msgs)"
| "mongo_loop prov now (t # ts) coll msgs =
     (case mongo_item prov now t of
        Skipped \<Rightarrow> mongo_loop prov now ts coll (msgs @ [Warning_no_10k t])
      | Failed e \<Rightarrow> mongo_loop prov now ts coll (msgs @ [Error_for t e])
      | Got d \<Rightarrow> mongo_loop prov now ts (update_one d coll) msgs)"

text \<open>
  The whole call, with the result type of \<^const>\<open>fetch_to_sqlite\<close>. Every statement that
  can raise is inside the \<^verbatim>\<open>try\<close> of the loop, so the first component is always \<open>None\<close>.
\<close>

definition fetch_to_mongodb ::
  "provider \<Rightarrow> nat \<Rightarrow> string list \<Rightarrow> mongo \<Rightarrow> exn option \<times> mongo \<times> msg list" where
  "fetch_to_mongodb prov now tickers m =
     (case get_mongo_client m of
        None \<Rightarrow> (None, m, [Mongo_not_available])
      | Some port \<Rightarrow>
          (let (coll, msgs) = mongo_loop prov now tickers (collection_at m port) []
           in (None, m(port := Some coll),
               msgs @ [Synced_to_mongodb (length tickers)])))"

text \<open>
  The read path: the documents are flattened into six columns, the equity being
  \<^verbatim>\<open>total_assets - total_liabilities\<close>; an empty collection leaves the frame without
  columns.
\<close>

definition doc_equity :: "document \<Rightarrow> cell" where
  "doc_equity d = N (fl_sub (to_fl (d_total_assets d)) (to_fl (d_total_liabilities d)))"

definition normalize_docs :: "collection \<Rightarrow> frame" where
  "normalize_docs docs =
     [(''ticker'', map (\<lambda>d. S (d_ticker d)) docs),
      (''revenue'', map (\<lambda>d. to_cell (d_revenue d)) docs),
      (''net_income'', map (\<lambda>d. to_cell (d_net_income d)) docs),
      (''assets'', map (\<lambda>d. to_cell (d_total_assets d)) docs),
      (''liabilities'', map (\<lambda>d. to_cell (d_total_liabilities d)) docs),
      (''equity'', map doc_equity docs)]"

definition mongo_read :: "mongo \<Rightarrow> frame \<times> msg" where
  "mongo_read m =
     (case get_mongo_client m of
        None \<Rightarrow> ([], Mongo_not_connected)
      | Some port \<Rightarrow>
          (let docs = collection_at m port
           in if docs \<noteq> [] then (normalize_docs docs, Loaded_from_mongodb (length docs) port)
              else ([], No_data_in_mongodb)))"

section \<open>Ad-hoc query surface\<close>

text \<open>
  The query box is shown when the relational store is selected and the table read at the
  start has rows. The text of the box goes to \<^verbatim>\<open>pd.read_sql\<close> as it is. What a statement does is
  decided by the database engine, which is external and a parameter here. Its answer to
  \<^verbatim>\<open>cursor.execute\<close> is one of four: it raises (the store is as before); it yields a
  result set; it yields none and has changed rows inside a transaction that is still
  open (SQLite opens one before \<^verbatim>\<open>INSERT\<close>, \<^verbatim>\<open>UPDATE\<close>, \<^verbatim>\<open>DELETE\<close>, \<^verbatim>\<open>REPLACE\<close>); or it yields
  none and has committed the change by itself (any other statement that writes).
\<close>

datatype executed =
    Raised exn
  | Rows frame
  | Pending sqlite_db
  | Committed sqlite_db

type_synonym engine = "string \<Rightarrow> sqlite_db \<Rightarrow> executed"

text \<open>
  \<^verbatim>\<open>pd.read_sql\<close> reads the column names of the result set and raises \<^verbatim>\<open>TypeError\<close> when
  there is none. The \<^verbatim>\<open>except\<close> reports every exception, and \<^verbatim>\<open>conn.close()\<close> follows
  without a commit, which discards an open transaction.
\<close>

definition sql_query_interface :: "engine \<Rightarrow> string \<Rightarrow> sqlite_db \<Rightarrow> sqlite_db \<times> msg" where
  "sql_query_interface eng q db =
     (case eng q db of
        Raised e \<Rightarrow> (db, Invalid_sql e)
      | Rows f \<Rightarrow> (db, Query_returned (nrows f))
      | Pending db' \<Rightarrow> (db, Invalid_sql TypeError)
      | Committed db' \<Rightarrow> (db', Invalid_sql TypeError))"

text \<open>
  The answers of SQLite to the three statements that are evaluated below; any other
  text is outside this fragment and is answered like a statement that does not parse.
\<close>

definition sqlite_exec :: engine where
  "sqlite_exec q db =
     (if q = ''SELECT * FROM financials''
      then (case db of None \<Rightarrow> Raised OperationalError | Some tb \<Rightarrow> Rows (frame_of_table tb))
      else if q = ''DELETE FROM financials''
      then (case db of None \<Rightarrow> Raised OperationalError
            | Some tb \<Rightarrow> Pending (Some (tb\<lparr>t_rows := []\<rparr>)))
      else if q = ''DROP TABLE financials''
      then (case db of None \<Rightarrow> Raised OperationalError | Some tb \<Rightarrow> Committed None)
      else Raised OperationalError)"

definition row_count :: "sqlite_db \<Rightarrow> nat" where
  "row_count db = (case db of None \<Rightarrow> 0 | Some tb \<Rightarrow> length (t_rows tb))"

section \<open>Notions used in the statements\<close>

fun is_num :: "cell \<Rightarrow> bool" where
  "is_num (N x) = True"
| "is_num (S s) = False"

fun the_fl :: "cell \<Rightarrow> fl" where
  "the_fl (N x) = x"
| "the_fl (S s) = NaN"

definition numeric_col :: "frame \<Rightarrow> string \<Rightarrow> bool" where
  "numeric_col f k = (case map_of f k of None \<Rightarrow> False | Some s \<Rightarrow> list_all is_num s)"

text \<open>
  The expression of the score in double precision, every operation rounded:
  \<open>1.2 \<cdot> ((a - l) / a) + 3.3 \<cdot> (ni / a) + 0.6 \<cdot> (e / l)\<close>.
\<close>

definition z_float :: "fl \<Rightarrow> fl \<Rightarrow> fl \<Rightarrow> fl \<Rightarrow> fl" where
  "z_float a l ni e =
     f64_add
       (f64_add (f64_mul (round64 (12 / 10)) (f64_div (f64_sub a l) a))
                (f64_mul (round64 (33 / 10)) (f64_div ni a)))
       (f64_mul (round64 (6 / 10)) (f64_div e l))"

text \<open>The columns that \<^const>\<open>calculate_financial_ratios\<close> writes.\<close>

definition derived_names :: "string list" where
  "derived_names = [''ROE'', ''Debt_to_Equity'', ''Profit_Margin'', ''Asset_Turnover'']"

text \<open>Two frames agree on every column that is not a derived one.\<close>

definition same_inputs :: "frame \<Rightarrow> frame \<Rightarrow> bool" where
  "same_inputs f g = (\<forall>k. k \<notin> set derived_names \<longrightarrow> map_of g k = map_of f k)"

text \<open>The quotient of two numeric cells as a ratio column holds it.\<close>

definition ratio_value :: "cell \<Rightarrow> cell \<Rightarrow> cell" where
  "ratio_value c d = N (py_round (np_div (the_fl c) (the_fl d)) 4)"



text \<open>
  The accounting identity within the tolerance, in the arithmetic of the floats:
  \<open>|a - (l + e)| < 1000000\<close>.
\<close>

definition balanced :: "fl \<Rightarrow> fl \<Rightarrow> fl \<Rightarrow> bool" where
  "balanced a l e = fl_lt (fl_abs (fl_sub a (fl_add l e))) (Fin 1000000)"

text \<open>The row of a frame at a position of the index.\<close>

definition frame_row :: "frame \<Rightarrow> nat \<Rightarrow> row" where
  "frame_row f i = map (\<lambda>(k, s). (k, s ! i)) f"

text \<open>The row that the document read path gives a document.\<close>

definition flat_row :: "document \<Rightarrow> row" where
  "flat_row d =
     [(''ticker'', S (d_ticker d)),
      (''revenue'', to_cell (d_revenue d)),
      (''net_income'', to_cell (d_net_income d)),
      (''assets'', to_cell (d_total_assets d)),
      (''liabilities'', to_cell (d_total_liabilities d)),
      (''equity'', N (fl_sub (to_fl (d_total_assets d)) (to_fl (d_total_liabilities d))))]"

section \<open>Concrete inputs\<close>

definition row_nan :: row where
  "row_nan =
     [(''ticker'', S ''JPM''), (''revenue'', N (Fin 100)), (''net_income'', N NaN),
      (''assets'', N (Fin 500)), (''liabilities'', N (Fin 200)), (''equity'', N (Fin 300))]"

definition row_aapl :: row where
  "row_aapl =
     [(''ticker'', S ''AAPL''), (''revenue'', N (Fin 100)), (''net_income'', N (Fin 10)),
      (''assets'', N (Fin 500)), (''liabilities'', N (Fin 200)), (''equity'', N (Fin 300))]"

text \<open>A row without assets and a row without liabilities.\<close>

definition row_no_assets :: row where
  "row_no_assets =
     [(''ticker'', S ''NEW''), (''revenue'', N (Fin 0)), (''net_income'', N (Fin (- 5))),
      (''assets'', N (Fin 0)), (''liabilities'', N (Fin 20)), (''equity'', N (Fin (- 20)))]"

definition row_no_liabilities :: row where
  "row_no_liabilities =
     [(''ticker'', S ''CASH''), (''revenue'', N (Fin 100)), (''net_income'', N (Fin 10)),
      (''assets'', N (Fin 500)), (''liabilities'', N (Fin 0)), (''equity'', N (Fin 500))]"

text \<open>
  A row whose exact score is 0.075, and a row of finite numbers whose quotients do not
  fit into a float.
\<close>

definition row_tie :: row where
  "row_tie =
     [(''ticker'', S ''TIE''), (''revenue'', N (Fin 1)), (''net_income'', N (Fin 0)),
      (''assets'', N (Fin 8)), (''liabilities'', N (Fin 8)), (''equity'', N (Fin 1))]"

definition row_huge :: row where
  "row_huge =
     [(''ticker'', S ''HUGE''), (''revenue'', N (Fin 1)), (''net_income'', N (Fin (2 ^ 600))),
      (''assets'', N (Fin (1 / 2 ^ 600))), (''liabilities'', N (Fin (1 / 2 ^ 600))),
      (''equity'', N (Fin (- (2 ^ 600))))]"

definition frame0 :: frame where
  "frame0 =
     [(''ticker'', [S ''AAPL'', S ''ZERO'']),
      (''revenue'', [N (Fin 100), N (Fin 100)]),
      (''net_income'', [N (Fin 10), N (Fin 10)]),
      (''assets'', [N (Fin 500), N (Fin 500)]),
      (''liabilities'', [N (Fin 200), N (Fin 500)]),
      (''equity'', [N (Fin 300), N (Fin 0)])]"

definition frame0_ratios :: frame where
  "frame0_ratios =
     frame0 @
     [(''ROE'', [N (Fin (333 / 10000)), N PInf]),
      (''Debt_to_Equity'', [N (Fin (6667 / 10000)), N PInf]),
      (''Profit_Margin'', [N (Fin (1 / 10)), N (Fin (1 / 10))]),
      (''Asset_Turnover'', [N (Fin (1 / 5)), N (Fin (1 / 5))])]"

definition aapl_filing :: filing where
  "aapl_filing =
     \<lparr>f_revenue = Some (Fin 100), f_net_income = Some (Fin 10),
      f_total_assets = Some (Fin 500), f_total_equity = Some (Fin 300),
      f_total_liabilities = Some (Fin 200), f_company_name = ''Apple Inc.'',
      f_cik = 320193, f_filing_date = Date 2024 11 1\<rparr>"

text \<open>A filing whose equity is not its assets less its liabilities.\<close>

definition acme_filing :: filing where
  "acme_filing =
     \<lparr>f_revenue = Some (Fin 100), f_net_income = Some (Fin 10),
      f_total_assets = Some (Fin 500), f_total_equity = Some (Fin 250),
      f_total_liabilities = Some (Fin 200), f_company_name = ''Acme Corp.'',
      f_cik = 1, f_filing_date = Date 2024 11 1\<rparr>"

text \<open>
  A provider that knows two companies, has no 10-K for a third and raises for every
  other ticker.
\<close>

definition prov0 :: provider where
  "prov0 t =
     (if t = ''AAPL'' then Latest aapl_filing
      else if t = ''ACME'' then Latest acme_filing
      else if t = ''NONE'' then NoFiling
      else Fails (ProviderError t))"





text \<open>The table as \<^const>\<open>init_sqlite_db\<close> creates it, holding the row of a year before.\<close>

definition table_2024 :: table where
  "table_2024 =
     financials_schema
       \<lparr>t_rows := [[(''ticker'', S ''AAPL''), (''year'', N (Fin 2024)),
                    (''revenue'', N (Fin 90)), (''net_income'', N (Fin 9)),
                    (''assets'', N (Fin 450)), (''liabilities'', N (Fin 180)),
                    (''equity'', N (Fin 270))]]\<rparr>"

text \<open>One server, on the first port, with an empty collection.\<close>

definition mongo0 :: mongo where
  "mongo0 p = (if p = 27017 then Some [] else None)"

text \<open>The same table with a column for the audit flag.\<close>

definition table_with_audit :: table where
  "table_with_audit = financials_schema\<lparr>t_cols := t_cols financials_schema @ [''audit_pass'']\<rparr>"

text \<open>The filing of the first company, stored in the one store and in the other.\<close>

definition table_aapl :: table where
  "table_aapl =
     financials_schema
       \<lparr>t_rows := [[(''ticker'', S ''AAPL''), (''year'', N (Fin 2025)),
                    (''revenue'', N (Fin 100)), (''net_income'', N (Fin 10)),
                    (''assets'', N (Fin 500)), (''liabilities'', N (Fin 200)),
                    (''equity'', N (Fin 300))]]\<rparr>"

definition mongo_aapl :: mongo where
  "mongo_aapl p = (if p = 27017 then Some [doc_of ''AAPL'' 7 aapl_filing 1] else None)"

section \<open>Basic facts\<close>

lemma bindx_Inr [simp]: "bindx (Inr v) f = f v"
  by (simp add: bindx_def)

lemma bindx_Inl [simp]: "bindx (Inl e) f = Inl e"
  by (simp add: bindx_def)

lemma getitem_Some: "map_of r k = Some c \<Longrightarrow> getitem r k = Inr c"
  by (simp add: getitem_def)

lemma map_of_set_col: "map_of (set_col k s f) k' = (if k' = k then Some s else map_of f k')"
  by (induction f) auto

lemmas metrics_defs =
  calculate_advanced_metrics_def altman_cell_def metrics_body_def zero_test_def z_score_def
  liquidity_def profitability_def leverage_def py_div_def fl_eq_def

lemmas rounding_defs = round_dec_def round_half_even_def

section \<open>Double precision\<close>

lemma pow2_powr: "pow2 q = 2 powr (of_int q)"
proof (cases "0 \<le> q")
  case True
  then have "(2::real) powr (of_int q) = 2 powr (real (nat q))" by simp
  also have "\<dots> = 2 ^ nat q" by (simp add: powr_realpow)
  finally show ?thesis using True by (simp add: pow2_def)
next
  case False
  then have "(2::real) powr (of_int q) = 2 powr (- real (nat (- q)))" by simp
  also have "\<dots> = 1 / 2 powr (real (nat (- q)))" by (simp only: powr_minus_divide)
  also have "\<dots> = 1 / 2 ^ nat (- q)" by (simp add: powr_realpow)
  finally show ?thesis using False by (simp add: pow2_def)
qed

lemma pow2_step: "pow2 (k + 1) = 2 * pow2 k"
  by (simp add: pow2_powr powr_add)

lemma pow2_pred: "pow2 k = 2 * pow2 (k - 1)"
  using pow2_step [of "k - 1"] by simp

lemma pow2_step2: "pow2 (k + 2) = 4 * pow2 k"
  using pow2_step [of "k + 1"] pow2_step [of k] by (simp add: add.commute)

lemma pow2_less_cancel: "pow2 a < pow2 b \<Longrightarrow> a < b"
  by (simp add: pow2_powr)

text \<open>The exponent of a number between two neighbouring powers of two.\<close>

lemma expo_eqI:
  assumes "pow2 k \<le> x" and "x < pow2 (k + 1)"
  shows "expo x = k"
  using assms
proof (induction x arbitrary: k rule: expo.induct)
  case (1 x)
  show ?case
  proof (cases "2 \<le> x")
    case True
    have "pow2 (k - 1) \<le> x / 2" "x / 2 < pow2 (k - 1 + 1)"
      using "1.prems" pow2_pred [of k] pow2_step [of k] pow2_pred [of "k + 1"] by simp_all
    with True have "expo (x / 2) = k - 1"
      by (intro "1.IH"(1))
    with True show ?thesis
      by (simp add: expo.simps [of x])
  next
    case False
    show ?thesis
    proof (cases "0 < x \<and> x < 1")
      case True
      have "pow2 (k + 1) \<le> x * 2" "x * 2 < pow2 (k + 1 + 1)"
        using "1.prems" pow2_step [of k] pow2_step [of "k + 1"] by linarith+
      with False True have "expo (x * 2) = k + 1"
        by (intro "1.IH"(2))
      with False True show ?thesis
        by (simp add: expo.simps [of x])
    next
      case small: False
      have "0 < pow2 k" by (simp add: pow2_powr)
      with "1.prems" small have x: "1 \<le> x" by simp
      with "1.prems" have "pow2 0 < pow2 (k + 1)" by (simp add: pow2_def)
      then have "0 < k + 1" by (rule pow2_less_cancel)
      moreover from "1.prems" False have "pow2 k < pow2 1" by (simp add: pow2_def)
      then have "k < 1" by (rule pow2_less_cancel)
      ultimately have "k = 0" by simp
      with False x show ?thesis
        by (simp add: expo.simps [of x])
    qed
  qed
qed

lemma near64_eqI:
  assumes "pow2 k \<le> \<bar>x\<bar>" and "\<bar>x\<bar> < pow2 (k + 1)"
  shows "near64 x = of_int (round_half_even (x / pow2 (max (k - 52) (- 1074))))
                      * pow2 (max (k - 52) (- 1074))"
  using expo_eqI [OF assms] by (simp add: near64_def Let_def)

lemma round64_not_NaN: "round64 x \<noteq> NaN"
  by (simp add: round64_def)

lemma rounded_NaN_iff: "rounded x = NaN \<longleftrightarrow> x = NaN"
  by (cases x) (simp_all add: round64_not_NaN)

lemma float_round_NaN_iff: "float_round x n = NaN \<longleftrightarrow> x = NaN"
  by (cases x) (simp_all add: round64_not_NaN)

lemma is_null_N: "is_null (N x) \<longleftrightarrow> x = NaN"
  by (cases x) simp_all

text \<open>An operation with a \<open>NaN\<close> operand yields \<open>NaN\<close>.\<close>

lemma fl_add_NaN: "fl_add NaN y = NaN" "fl_add x NaN = NaN"
  by (cases x; simp)+

lemma fl_mul_NaN: "fl_mul NaN y = NaN" "fl_mul x NaN = NaN"
  by (cases x; simp)+

lemma np_div_NaN: "np_div NaN y = NaN" "np_div x NaN = NaN"
  by (cases x; simp)+

lemma f64_NaN:
  "f64_add NaN y = NaN" "f64_add x NaN = NaN"
  "f64_sub NaN y = NaN" "f64_sub x NaN = NaN"
  "f64_mul NaN y = NaN" "f64_mul x NaN = NaN"
  "f64_div NaN y = NaN" "f64_div x NaN = NaN"
  by (simp_all add: f64_add_def f64_sub_def f64_mul_def f64_div_def fl_sub_def
      fl_add_NaN fl_mul_NaN np_div_NaN)

text \<open>On finite operands an operation is the exact one, rounded.\<close>

lemma f64_finite:
  "f64_add (Fin x) (Fin y) = round64 (x + y)"
  "f64_sub (Fin x) (Fin y) = round64 (x - y)"
  "f64_mul (Fin x) (Fin y) = round64 (x * y)"
  "y \<noteq> 0 \<Longrightarrow> f64_div (Fin x) (Fin y) = round64 (x / y)"
  by (simp_all add: f64_add_def f64_sub_def f64_mul_def f64_div_def fl_sub_def)

lemmas r64 = round64_def near64_def expo.simps pow2_def round_half_even_def Let_def

section \<open>The Altman score\<close>

lemma z_float_NaN:
  "z_float NaN l ni e = NaN" "z_float a NaN ni e = NaN"
  "z_float a l NaN e = NaN" "z_float a l ni NaN = NaN"
  by (simp_all add: z_float_def f64_NaN)

lemma altman_zero_assets:
  assumes "map_of r ''assets'' = Some (N (Fin 0))"
  shows "calculate_advanced_metrics r = None"
  using assms by (simp add: metrics_defs getitem_Some)

lemma altman_zero_liabilities:
  assumes "map_of r ''liabilities'' = Some (N (Fin 0))"
  shows "calculate_advanced_metrics r = None"
proof (cases "map_of r ''assets''")
  case None
  then show ?thesis by (simp add: metrics_defs getitem_def)
next
  case (Some a)
  with assms show ?thesis
    by (cases "cell_eq0 a") (simp_all add: calculate_advanced_metrics_def metrics_body_def
        zero_test_def getitem_Some fl_eq_def)
qed

text \<open>
  On a row of four numbers with assets and liabilities other than zero nothing raises,
  and the value returned is the expression in double precision, rounded by \<^verbatim>\<open>round\<close>.
\<close>

lemma altman_numeric:
  assumes "map_of r ''assets'' = Some (N a)" and "map_of r ''liabilities'' = Some (N l)"
      and "map_of r ''net_income'' = Some (N ni)" and "map_of r ''equity'' = Some (N e)"
      and "a \<noteq> Fin 0" and "l \<noteq> Fin 0"
  shows "calculate_advanced_metrics r = Some (N (float_round (z_float a l ni e) 2))"
  using assms by (simp add: metrics_defs getitem_Some z_float_def)

text \<open>
  The model follows the floats of the code where the exact arithmetic would not. The
  exact score of the row with assets 8, liabilities 8, net income 0 and equity 1 is
  0.075, which would round to 0.08; the float \<^verbatim>\<open>0.6\<close> is a little less than 0.6, the product
  a little less than 0.075, and \<^verbatim>\<open>round\<close> returns the float 0.07.
\<close>

lemma altman_tie_row:
  "calculate_advanced_metrics row_tie = Some (N (round64 (7 / 100)))"
  "round64 (7 / 100) = Fin (1261007895663739 / 2 ^ 54)"
  "round64 (7 / 100) \<noteq> round64 (8 / 100)"
proof -
  have cols: "map_of row_tie ''assets'' = Some (N (Fin 8))"
    "map_of row_tie ''liabilities'' = Some (N (Fin 8))"
    "map_of row_tie ''net_income'' = Some (N (Fin 0))"
    "map_of row_tie ''equity'' = Some (N (Fin 1))"
    by (simp_all add: row_tie_def)
  have z: "z_float (Fin 8) (Fin 8) (Fin 0) (Fin 1) = Fin (5404319552844595 / 2 ^ 56)"
    by (simp add: z_float_def f64_finite r64)
  have d: "round_dec 2 (5404319552844595 / 2 ^ 56) = 7 / 100"
    by (simp add: rounding_defs)
  have "calculate_advanced_metrics row_tie
          = Some (N (float_round (z_float (Fin 8) (Fin 8) (Fin 0) (Fin 1)) 2))"
    by (rule altman_numeric [OF cols]) simp_all
  then show "calculate_advanced_metrics row_tie = Some (N (round64 (7 / 100)))"
    by (simp only: z float_round.simps d)
  show "round64 (7 / 100) = Fin (1261007895663739 / 2 ^ 54)"
    by (simp add: r64)
  then show "round64 (7 / 100) \<noteq> round64 (8 / 100)"
    by (simp add: r64)
qed

text \<open>
  A row of finite numbers can have a null score: with assets and liabilities
  \<open>2 ^ -600\<close>, net income \<open>2 ^ 600\<close> and equity \<open>-(2 ^ 600)\<close> the two quotients overflow to
  the infinities of opposite sign, and their sum is \<open>NaN\<close>.
\<close>

lemma overflow_quotients:
  "round64 (2 ^ 600 / (1 / 2 ^ 600)) = PInf"
  "round64 (- (2 ^ 600) / (1 / 2 ^ 600)) = NInf"
proof -
  have b: "pow2 1200 \<le> \<bar>(2 ^ 600 / (1 / 2 ^ 600) :: real)\<bar>"
    "\<bar>(2 ^ 600 / (1 / 2 ^ 600) :: real)\<bar> < pow2 (1200 + 1)"
    by (simp_all add: pow2_def)
  have "near64 (2 ^ 600 / (1 / 2 ^ 600)) = 2 ^ 1200"
    unfolding near64_eqI [OF b] by (simp add: pow2_def round_half_even_def)
  then show "round64 (2 ^ 600 / (1 / 2 ^ 600)) = PInf"
    by (simp add: round64_def)
  have c: "pow2 1200 \<le> \<bar>(- (2 ^ 600) / (1 / 2 ^ 600) :: real)\<bar>"
    "\<bar>(- (2 ^ 600) / (1 / 2 ^ 600) :: real)\<bar> < pow2 (1200 + 1)"
    by (simp_all add: pow2_def)
  have "near64 (- (2 ^ 600) / (1 / 2 ^ 600)) = - (2 ^ 1200)"
    unfolding near64_eqI [OF c] by (simp add: pow2_def round_half_even_def)
  then show "round64 (- (2 ^ 600) / (1 / 2 ^ 600)) = NInf"
    by (simp add: round64_def)
qed

lemma altman_huge_row:
  "is_null (altman_cell row_huge)"
  "\<not> cell_eq0 (cell_of row_huge ''assets'')" "\<not> cell_eq0 (cell_of row_huge ''liabilities'')"
proof -
  have cols: "map_of row_huge ''assets'' = Some (N (Fin (1 / 2 ^ 600)))"
    "map_of row_huge ''liabilities'' = Some (N (Fin (1 / 2 ^ 600)))"
    "map_of row_huge ''net_income'' = Some (N (Fin (2 ^ 600)))"
    "map_of row_huge ''equity'' = Some (N (Fin (- (2 ^ 600))))"
    by (simp_all add: row_huge_def)
  have nz: "(1 / 2 ^ 600 :: real) \<noteq> 0" by simp
  have d1: "f64_div (Fin (2 ^ 600)) (Fin (1 / 2 ^ 600)) = PInf"
    and d2: "f64_div (Fin (- (2 ^ 600))) (Fin (1 / 2 ^ 600)) = NInf"
    by (simp_all only: f64_finite(4) [OF nz] overflow_quotients)
  have d0: "f64_div (f64_sub (Fin (1 / 2 ^ 600)) (Fin (1 / 2 ^ 600))) (Fin (1 / 2 ^ 600)) = Fin 0"
    by (simp add: f64_finite r64)
  have m: "f64_mul (round64 (12 / 10)) (Fin 0) = Fin 0"
    "f64_mul (round64 (33 / 10)) PInf = PInf" "f64_mul (round64 (6 / 10)) NInf = NInf"
    by (simp_all add: f64_mul_def r64)
  have s: "f64_add (f64_add (Fin 0) PInf) NInf = NaN"
    by (simp add: f64_add_def)
  have "z_float (Fin (1 / 2 ^ 600)) (Fin (1 / 2 ^ 600)) (Fin (2 ^ 600)) (Fin (- (2 ^ 600))) = NaN"
    by (simp only: z_float_def d0 d1 d2 m s)
  with altman_numeric [OF cols] show "is_null (altman_cell row_huge)"
    by (simp add: altman_cell_def)
  show "\<not> cell_eq0 (cell_of row_huge ''assets'')" "\<not> cell_eq0 (cell_of row_huge ''liabilities'')"
    by (simp_all add: row_huge_def cell_of_def fl_eq_def)
qed

text \<open>
  Claim C4 says that, for every row, the score is null exactly when the assets or the
  liabilities are zero. A row whose net income is null is a counterexample: neither its
  assets nor its liabilities are zero, the arithmetic yields \<open>NaN\<close>, \<^verbatim>\<open>round\<close> returns it,
  and the score of the row is null.
\<close>

theorem altman_null_counterexample:
  "is_null (altman_cell row_nan)
     \<and> \<not> cell_eq0 (cell_of row_nan ''assets'')
     \<and> \<not> cell_eq0 (cell_of row_nan ''liabilities'')"
proof -
  have cols: "map_of row_nan ''assets'' = Some (N (Fin 500))"
    "map_of row_nan ''liabilities'' = Some (N (Fin 200))"
    "map_of row_nan ''net_income'' = Some (N NaN)"
    "map_of row_nan ''equity'' = Some (N (Fin 300))"
    by (simp_all add: row_nan_def)
  from altman_numeric [OF cols] have "is_null (altman_cell row_nan)"
    by (simp add: altman_cell_def z_float_NaN)
  then show ?thesis
    by (simp add: row_nan_def cell_of_def fl_eq_def)
qed

text \<open>
  Claim C4, amended: for every row, \<^verbatim>\<open>calculate_advanced_metrics\<close> returns \<^verbatim>\<open>None\<close>, and the
  score is null, when the assets are zero or the liabilities are zero. For every row whose
  assets \<open>a\<close>, liabilities \<open>l\<close>, net income \<open>ni\<close> and equity \<open>e\<close> are numbers, with \<open>a\<close> and
  \<open>l\<close> other than zero, it returns the value of
  \<open>1.2 \<cdot> ((a - l) / a) + 3.3 \<cdot> (ni / a) + 0.6 \<cdot> (e / l)\<close> in double precision, rounded to two
  decimals by \<^verbatim>\<open>round\<close>; the score of such a row is null exactly when that value is \<open>NaN\<close>,
  which it is whenever one of the four numbers is null (and for some finite rows, where
  the arithmetic overflows).
\<close>

theorem altman_score:
  "(map_of r ''assets'' = Some (N (Fin 0)) \<or> map_of r ''liabilities'' = Some (N (Fin 0)) \<longrightarrow>
      calculate_advanced_metrics r = None \<and> is_null (altman_cell r))
   \<and> (map_of r ''assets'' = Some (N a) \<and> map_of r ''liabilities'' = Some (N l)
        \<and> map_of r ''net_income'' = Some (N ni) \<and> map_of r ''equity'' = Some (N e)
        \<and> a \<noteq> Fin 0 \<and> l \<noteq> Fin 0 \<longrightarrow>
      calculate_advanced_metrics r = Some (N (float_round (z_float a l ni e) 2))
      \<and> (is_null (altman_cell r) \<longleftrightarrow> z_float a l ni e = NaN)
      \<and> (a = NaN \<or> l = NaN \<or> ni = NaN \<or> e = NaN \<longrightarrow> is_null (altman_cell r)))"
proof (intro conjI impI)
  assume "map_of r ''assets'' = Some (N (Fin 0)) \<or> map_of r ''liabilities'' = Some (N (Fin 0))"
  then show none: "calculate_advanced_metrics r = None"
    using altman_zero_assets altman_zero_liabilities by blast
  then show "is_null (altman_cell r)"
    by (simp add: altman_cell_def)
next
  assume h: "map_of r ''assets'' = Some (N a) \<and> map_of r ''liabilities'' = Some (N l)
        \<and> map_of r ''net_income'' = Some (N ni) \<and> map_of r ''equity'' = Some (N e)
        \<and> a \<noteq> Fin 0 \<and> l \<noteq> Fin 0"
  then show v: "calculate_advanced_metrics r = Some (N (float_round (z_float a l ni e) 2))"
    by (intro altman_numeric) simp_all
  then show n: "is_null (altman_cell r) \<longleftrightarrow> z_float a l ni e = NaN"
    by (simp add: altman_cell_def is_null_N float_round_NaN_iff)
  assume "a = NaN \<or> l = NaN \<or> ni = NaN \<or> e = NaN"
  then have "z_float a l ni e = NaN"
    by (auto simp: z_float_NaN)
  with n show "is_null (altman_cell r)" by simp
qed

text \<open>
  The amended claim at a row without assets, at a row without liabilities, at the row of
  the example of the specification, whose score is the float 1.69, and at the row with
  the null net income.
\<close>

theorem altman_score_witness:
  "map_of row_no_assets ''assets'' = Some (N (Fin 0))
   \<and> calculate_advanced_metrics row_no_assets = None
   \<and> map_of row_no_liabilities ''liabilities'' = Some (N (Fin 0))
   \<and> calculate_advanced_metrics row_no_liabilities = None
   \<and> map_of row_aapl ''assets'' = Some (N (Fin 500))
   \<and> map_of row_aapl ''liabilities'' = Some (N (Fin 200))
   \<and> map_of row_aapl ''net_income'' = Some (N (Fin 10))
   \<and> map_of row_aapl ''equity'' = Some (N (Fin 300))
   \<and> calculate_advanced_metrics row_aapl = Some (N (round64 (169 / 100)))
   \<and> round64 (169 / 100) = Fin (3805541685128069 / 2 ^ 51)
   \<and> \<not> is_null (altman_cell row_aapl)
   \<and> map_of row_nan ''net_income'' = Some (N NaN)
   \<and> is_null (altman_cell row_nan)"
proof -
  have za: "map_of row_no_assets ''assets'' = Some (N (Fin 0))"
    by (simp add: row_no_assets_def)
  have zl: "map_of row_no_liabilities ''liabilities'' = Some (N (Fin 0))"
    by (simp add: row_no_liabilities_def)
  have cols: "map_of row_aapl ''assets'' = Some (N (Fin 500))"
    "map_of row_aapl ''liabilities'' = Some (N (Fin 200))"
    "map_of row_aapl ''net_income'' = Some (N (Fin 10))"
    "map_of row_aapl ''equity'' = Some (N (Fin 300))"
    by (simp_all add: row_aapl_def)
  have nans: "map_of row_nan ''assets'' = Some (N (Fin 500))"
    "map_of row_nan ''liabilities'' = Some (N (Fin 200))"
    "map_of row_nan ''net_income'' = Some (N NaN)"
    "map_of row_nan ''equity'' = Some (N (Fin 300))"
    by (simp_all add: row_nan_def)
  have z: "z_float (Fin 500) (Fin 200) (Fin 10) (Fin 300) = Fin (237283405367083 / 2 ^ 47)"
    by (simp add: z_float_def f64_finite r64)
  have d: "round_dec 2 (237283405367083 / 2 ^ 47) = 169 / 100"
    by (simp add: rounding_defs)
  have v: "round64 (169 / 100) = Fin (3805541685128069 / 2 ^ 51)"
    by (simp add: r64)
  from altman_score [of row_no_assets] za
  have a: "calculate_advanced_metrics row_no_assets = None" by simp
  from altman_score [of row_no_liabilities] zl
  have b: "calculate_advanced_metrics row_no_liabilities = None" by simp
  have nz: "Fin 500 \<noteq> Fin 0" "Fin 200 \<noteq> Fin 0" by simp_all
  from altman_score [of row_aapl "Fin 500" "Fin 200" "Fin 10" "Fin 300"] cols nz
  have c0: "calculate_advanced_metrics row_aapl
              = Some (N (float_round (z_float (Fin 500) (Fin 200) (Fin 10) (Fin 300)) 2))"
    and c1: "is_null (altman_cell row_aapl)
              \<longleftrightarrow> z_float (Fin 500) (Fin 200) (Fin 10) (Fin 300) = NaN"
    by blast+
  have c: "calculate_advanced_metrics row_aapl = Some (N (round64 (169 / 100)))"
    by (simp only: c0 z float_round.simps d)
  have n: "\<not> is_null (altman_cell row_aapl)"
    by (simp add: c1 z)
  from altman_score [of row_nan "Fin 500" "Fin 200" NaN "Fin 300"] nans
  have e: "is_null (altman_cell row_nan)" by (simp add: z_float_NaN)
  from za a zl b cols c v n nans(3) e show ?thesis
    by (intro conjI)
qed

section \<open>The ratio columns\<close>

lemma as_floats_numeric: "list_all is_num s \<Longrightarrow> as_floats s = Inr (map the_fl s)"
proof (induction s)
  case Nil
  then show ?case by simp
next
  case (Cons c cs)
  then show ?case by (cases c) simp_all
qed

lemma series_round_map:
  "series_round n (map (\<lambda>p. N (g p)) ps) = map (\<lambda>p. N (py_round (g p) n)) ps"
  by (induction ps) simp_all

lemma series_div_numeric:
  assumes "list_all is_num a" and "list_all is_num b"
  shows "series_div a b = Inr (map (\<lambda>(c, d). N (np_div (the_fl c) (the_fl d))) (zip a b))"
  using assms by (simp add: series_div_def as_floats_numeric zip_map_map case_prod_unfold)

lemma ratio_col_numeric:
  assumes "has_col f guard" and "map_of f num = Some a" and "map_of f den = Some b"
      and "list_all is_num a" and "list_all is_num b"
  shows "ratio_col guard num den f = Inr (map (\<lambda>(c, d). ratio_value c d) (zip a b))"
  using assms
  by (simp add: ratio_col_def df_getitem_def series_div_numeric ratio_value_def
      case_prod_unfold series_round_map)

lemma assign_ratio_numeric:
  assumes "has_col f guard" and "map_of f num = Some a" and "map_of f den = Some b"
      and "list_all is_num a" and "list_all is_num b"
  shows "assign_ratio name guard num den f
           = Inr (set_col name (map (\<lambda>(c, d). ratio_value c d) (zip a b)) f)"
  using assms by (simp add: assign_ratio_def ratio_col_numeric)

lemma assign_ratio_frame:
  assumes "assign_ratio name guard num den f = Inr g"
  shows "\<exists>s. g = set_col name s f"
  using assms by (auto simp: assign_ratio_def bindx_def split: sum.splits)

lemma numeric_colD:
  "numeric_col f k \<Longrightarrow> \<exists>s. map_of f k = Some s \<and> list_all is_num s"
  by (auto simp: numeric_col_def split: option.splits)



text \<open>On a frame with the five numeric columns no statement raises.\<close>

lemma run_ratio_stmts_numeric:
  assumes ni: "map_of f ''net_income'' = Some ni" "list_all is_num ni"
      and eq: "map_of f ''equity'' = Some eq" "list_all is_num eq"
      and li: "map_of f ''liabilities'' = Some li" "list_all is_num li"
      and rv: "map_of f ''revenue'' = Some rv" "list_all is_num rv"
      and as: "map_of f ''assets'' = Some as" "list_all is_num as"
  shows "\<exists>g. run_stmts ratio_stmts f = (None, g)
            \<and> map_of g ''ROE'' = Some (map (\<lambda>(c, d). ratio_value c d) (zip ni eq))
            \<and> map_of g ''Debt_to_Equity'' = Some (map (\<lambda>(c, d). ratio_value c d) (zip li eq))
            \<and> map_of g ''Profit_Margin'' = Some (map (\<lambda>(c, d). ratio_value c d) (zip ni rv))
            \<and> map_of g ''Asset_Turnover'' = Some (map (\<lambda>(c, d). ratio_value c d) (zip rv as))"
proof -
  let ?roe = "map (\<lambda>(c, d). ratio_value c d) (zip ni eq)"
  let ?de = "map (\<lambda>(c, d). ratio_value c d) (zip li eq)"
  let ?pm = "map (\<lambda>(c, d). ratio_value c d) (zip ni rv)"
  let ?at = "map (\<lambda>(c, d). ratio_value c d) (zip rv as)"
  let ?f1 = "set_col ''ROE'' ?roe f"
  let ?f2 = "set_col ''Debt_to_Equity'' ?de ?f1"
  let ?f3 = "set_col ''Profit_Margin'' ?pm ?f2"
  let ?f4 = "set_col ''Asset_Turnover'' ?at ?f3"
  have s1: "assign_ratio ''ROE'' ''equity'' ''net_income'' ''equity'' f = Inr ?f1"
    using ni eq by (simp add: assign_ratio_numeric has_col_def)
  have s2: "assign_ratio ''Debt_to_Equity'' ''equity'' ''liabilities'' ''equity'' ?f1 = Inr ?f2"
    using li eq by (simp add: assign_ratio_numeric has_col_def map_of_set_col)
  have s3: "assign_ratio ''Profit_Margin'' ''revenue'' ''net_income'' ''revenue'' ?f2 = Inr ?f3"
    using ni rv by (simp add: assign_ratio_numeric has_col_def map_of_set_col)
  have s4: "assign_ratio ''Asset_Turnover'' ''assets'' ''revenue'' ''assets'' ?f3 = Inr ?f4"
    using rv as by (simp add: assign_ratio_numeric has_col_def map_of_set_col)
  have "run_stmts ratio_stmts f = (None, ?f4)"
    by (simp add: ratio_stmts_def s1 s2 s3 s4)
  moreover have "map_of ?f4 ''ROE'' = Some ?roe" "map_of ?f4 ''Debt_to_Equity'' = Some ?de"
    "map_of ?f4 ''Profit_Margin'' = Some ?pm" "map_of ?f4 ''Asset_Turnover'' = Some ?at"
    by (simp_all add: map_of_set_col)
  ultimately show ?thesis by blast
qed

lemma frame0_eval:
  "calculate_financial_ratios [frame0] 0 = (Inr 1, [frame0, frame0_ratios])"
  by (simp add: calculate_financial_ratios_def df_copy_def ratio_stmts_def assign_ratio_def
      ratio_col_def has_col_def df_getitem_def series_div_def frame0_def frame0_ratios_def
      rounding_defs)




section \<open>The caller's table\<close>

lemma same_inputs_refl: "same_inputs f f"
  by (simp add: same_inputs_def)

lemma same_inputs_trans: "same_inputs f g \<Longrightarrow> same_inputs g k \<Longrightarrow> same_inputs f k"
  by (simp add: same_inputs_def)

lemma assign_ratio_same_inputs:
  assumes "assign_ratio name guard num den f = Inr g" and "name \<in> set derived_names"
  shows "same_inputs f g"
proof -
  obtain s where "g = set_col name s f"
    using assign_ratio_frame [OF assms(1)] by blast
  with assms(2) show ?thesis
    by (auto simp: same_inputs_def map_of_set_col)
qed

lemma run_stmts_same_inputs:
  assumes "\<forall>st \<in> set sts. \<forall>f g. st f = Inr g \<longrightarrow> same_inputs f g"
      and "run_stmts sts f = (e, g)"
  shows "same_inputs f g"
  using assms
proof (induction sts arbitrary: f)
  case Nil
  then show ?case by (simp add: same_inputs_refl)
next
  case (Cons st sts)
  show ?case
  proof (cases "st f")
    case (Inl x)
    with Cons.prems show ?thesis by (simp add: same_inputs_refl)
  next
    case (Inr f')
    with Cons.prems have "same_inputs f f'" by simp
    moreover from Inr Cons.prems have "same_inputs f' g"
      using Cons.IH [of f'] by simp
    ultimately show ?thesis by (rule same_inputs_trans)
  qed
qed

lemma ratio_stmts_same_inputs:
  "\<forall>st \<in> set ratio_stmts. \<forall>f g. st f = Inr g \<longrightarrow> same_inputs f g"
  by (auto simp: ratio_stmts_def derived_names_def intro: assign_ratio_same_inputs)

lemma run_stmts_derived:
  assumes "run_stmts ratio_stmts f = (None, g)"
  shows "list_all (has_col g) derived_names"
  using assms
  by (auto simp: ratio_stmts_def derived_names_def has_col_def map_of_set_col
      split: sum.splits dest!: assign_ratio_frame)

text \<open>
  Claim C10: \<^verbatim>\<open>calculate_financial_ratios\<close> never mutates its input. Whether the call
  returns or raises, every table that existed before the call, the caller's among them,
  is afterwards what it was. When the call returns, the result is a new object, it has
  the four derived columns, and it agrees with the caller's table on all other columns.
  On a table whose five amount columns are numeric the call does return.
\<close>

theorem ratios_do_not_mutate:
  assumes "r < length h" and "calculate_financial_ratios h r = (res, h')"
  shows "take (length h) h' = h \<and> h' ! r = h ! r \<and>
         (\<forall>p. res = Inr p \<longrightarrow>
            p = length h \<and> p \<noteq> r
            \<and> (\<forall>k. k \<notin> set derived_names \<longrightarrow> map_of (h' ! p) k = map_of (h ! r) k)
            \<and> list_all (has_col (h' ! p)) derived_names) \<and>
         (list_all (numeric_col (h ! r))
            [''net_income'', ''equity'', ''liabilities'', ''revenue'', ''assets'']
          \<longrightarrow> res = Inr (length h))"
proof -
  obtain e g where run: "run_stmts ratio_stmts (h ! r) = (e, g)"
    by (cases "run_stmts ratio_stmts (h ! r)") auto
  from assms(2) run have h': "h' = h @ [g]"
    and res: "res = (case e of None \<Rightarrow> Inr (length h) | Some x \<Rightarrow> Inl x)"
    by (auto simp: calculate_financial_ratios_def df_copy_def)
  have same: "same_inputs (h ! r) g"
    using run_stmts_same_inputs [OF ratio_stmts_same_inputs run] .
  have "take (length h) h' = h" using h' by simp
  moreover have "h' ! r = h ! r" using h' assms(1) by (simp add: nth_append)
  moreover have "\<forall>p. res = Inr p \<longrightarrow>
            p = length h \<and> p \<noteq> r
            \<and> (\<forall>k. k \<notin> set derived_names \<longrightarrow> map_of (h' ! p) k = map_of (h ! r) k)
            \<and> list_all (has_col (h' ! p)) derived_names"
  proof (intro allI impI)
    fix p assume "res = Inr p"
    with res have e: "e = None" and p: "p = length h"
      by (auto split: option.splits)
    from run e have "list_all (has_col g) derived_names"
      using run_stmts_derived by simp
    with p same h' assms(1)
    show "p = length h \<and> p \<noteq> r
            \<and> (\<forall>k. k \<notin> set derived_names \<longrightarrow> map_of (h' ! p) k = map_of (h ! r) k)
            \<and> list_all (has_col (h' ! p)) derived_names"
      by (simp add: same_inputs_def)
  qed
  moreover have "list_all (numeric_col (h ! r))
            [''net_income'', ''equity'', ''liabilities'', ''revenue'', ''assets'']
          \<longrightarrow> res = Inr (length h)"
  proof
    assume "list_all (numeric_col (h ! r))
            [''net_income'', ''equity'', ''liabilities'', ''revenue'', ''assets'']"
    then obtain ni eq li rv as where
      "map_of (h ! r) ''net_income'' = Some ni" "list_all is_num ni"
      "map_of (h ! r) ''equity'' = Some eq" "list_all is_num eq"
      "map_of (h ! r) ''liabilities'' = Some li" "list_all is_num li"
      "map_of (h ! r) ''revenue'' = Some rv" "list_all is_num rv"
      "map_of (h ! r) ''assets'' = Some as" "list_all is_num as"
      by (auto dest!: numeric_colD)
    from run_ratio_stmts_numeric [OF this] run have "e = None" by auto
    with res show "res = Inr (length h)" by simp
  qed
  ultimately show ?thesis by blast
qed

text \<open>Claim C10 at the table of two rows: the store holds the old table and the new one.\<close>

theorem ratios_do_not_mutate_witness:
  "0 < length [frame0]
     \<and> calculate_financial_ratios [frame0] 0 = (Inr 1, [frame0, frame0_ratios])
     \<and> list_all (numeric_col ([frame0] ! 0))
          [''net_income'', ''equity'', ''liabilities'', ''revenue'', ''assets'']
     \<and> [frame0, frame0_ratios] ! 0 = [frame0] ! 0
     \<and> map_of frame0_ratios ''equity'' = map_of frame0 ''equity''
     \<and> list_all (has_col frame0_ratios) derived_names"
proof -
  have l: "0 < length [frame0]" by simp
  have n: "list_all (numeric_col ([frame0] ! 0))
          [''net_income'', ''equity'', ''liabilities'', ''revenue'', ''assets'']"
    by (simp add: numeric_col_def frame0_def)
  have "''equity'' \<notin> set derived_names"
    by (simp add: derived_names_def)
  with ratios_do_not_mutate [OF l frame0_eval] frame0_eval l n show ?thesis
    by simp
qed

section \<open>The audit flag\<close>



lemma audit_sqlite_Inr:
  assumes "audit_sqlite a l e = Inr ap"
  shows "\<exists>x y z. a = Some x \<and> l = Some y \<and> e = Some z
           \<and> ap = (if balanced x y z then 1 else 0)"
proof (cases a)
  case None
  with assms show ?thesis
    by (cases "py_add l e") (simp_all add: audit_sqlite_def)
next
  case (Some x)
  show ?thesis
  proof (cases l)
    case None
    with assms show ?thesis by (simp add: audit_sqlite_def)
  next
    case l: (Some y)
    show ?thesis
    proof (cases e)
      case None
      with assms l show ?thesis by (simp add: audit_sqlite_def)
    next
      case e: (Some z)
      with assms Some l show ?thesis
        by (auto simp: audit_sqlite_def balanced_def)
    qed
  qed
qed

lemma sqlite_item_Got:
  assumes "sqlite_item prov yr t = Got r"
  shows "\<exists>f a l e. prov t = Latest f \<and> f_total_assets f = Some a
           \<and> f_total_liabilities f = Some l \<and> f_total_equity f = Some e
           \<and> r = record_of t yr f (if balanced a l e then 1 else 0)"
proof (cases "prov t")
  case (Latest f)
  with assms obtain ap where ap: "audit_sqlite (f_total_assets f) (f_total_liabilities f) (f_total_equity f) = Inr ap"
    and r: "r = record_of t yr f ap"
    by (auto simp: sqlite_item_def split: sum.splits)
  from audit_sqlite_Inr [OF ap] r Latest show ?thesis by blast
qed (use assms in \<open>simp_all add: sqlite_item_def\<close>)


lemma sqlite_loop_results:
  "r \<in> set (fst (sqlite_loop prov yr ts acc msgs)) \<Longrightarrow>
     r \<in> set acc \<or> (\<exists>t \<in> set ts. sqlite_item prov yr t = Got r)"
proof (induction ts arbitrary: acc msgs)
  case Nil
  then show ?case by simp
next
  case (Cons t ts)
  show ?case
  proof (cases "sqlite_item prov yr t")
    case Skipped
    with Cons.prems Cons.IH [of acc "msgs @ [Warning_no_10k t]"] show ?thesis by auto
  next
    case (Failed e)
    with Cons.prems Cons.IH [of acc "msgs @ [Error_for t e]"] show ?thesis by auto
  next
    case (Got d)
    with Cons.prems Cons.IH [of "acc @ [d]" msgs] show ?thesis by auto
  qed
qed



lemma record_of_cells:
  "cell_of (record_of t yr f ap) ''assets'' = to_cell (f_total_assets f)"
  "cell_of (record_of t yr f ap) ''liabilities'' = to_cell (f_total_liabilities f)"
  "cell_of (record_of t yr f ap) ''equity'' = to_cell (f_total_equity f)"
  "cell_of (record_of t yr f ap) ''revenue'' = to_cell (f_revenue f)"
  "cell_of (record_of t yr f ap) ''net_income'' = to_cell (f_net_income f)"
  "cell_of (record_of t yr f ap) ''ticker'' = S t"
  "cell_of (record_of t yr f ap) ''year'' = N (Fin (of_int yr))"
  "cell_of (record_of t yr f ap) ''audit_pass'' = N (Fin (of_int ap))"
  by (simp_all add: record_of_def cell_of_def)



section \<open>Ingestion\<close>

lemmas sqlite_eval_defs = fetch_to_sqlite_def sqlite_item_def audit_sqlite_def record_of_def
  to_sql_append_def insert_rows_def init_sqlite_db_def financials_schema_def prov0_def
  aapl_filing_def acme_filing_def to_cell_def fl_sub_def pkey_ok_def key_of_def cell_of_def
  conform_def row_count_def

lemmas mongo_eval_defs = fetch_to_mongodb_def get_mongo_client_def collection_at_def
  mongo_item_def prov0_def aapl_filing_def acme_filing_def mongo0_def

lemma record_of_keys: "map fst (record_of t yr f ap) =
  [''ticker'', ''year'', ''revenue'', ''net_income'', ''assets'', ''equity'', ''liabilities'',
   ''audit_pass'']"
  by (simp add: record_of_def)

lemma insert_rows_missing_column:
  assumes "r \<in> set rs" and "k \<in> set (map fst r)" and "k \<notin> set (t_cols tb)"
  shows "insert_rows rs tb = Inl OperationalError"
proof -
  have "\<not> list_all (\<lambda>r. list_all (\<lambda>k. k \<in> set (t_cols tb)) (map fst r)) rs"
    using assms by (auto simp: list_all_iff)
  then show ?thesis by (simp add: insert_rows_def)
qed

text \<open>On a table without the audit column every run that collects a record raises.\<close>

lemma table_without_audit_rejects:
  assumes "''audit_pass'' \<notin> set (t_cols tb)" and "fst (sqlite_loop prov yr ts [] []) \<noteq> []"
  shows "fetch_to_sqlite prov yr ts (Some tb)
           = (Some OperationalError, Some tb, snd (sqlite_loop prov yr ts [] []))"
proof -
  obtain results msgs where loop: "sqlite_loop prov yr ts [] [] = (results, msgs)"
    by (cases "sqlite_loop prov yr ts [] []") auto
  with assms(2) obtain r where r: "r \<in> set results"
    by (cases results) auto
  with loop obtain t where "sqlite_item prov yr t = Got r"
    using sqlite_loop_results [of r prov yr ts "[]" "[]"] by auto
  then obtain f ap where "r = record_of t yr f ap"
    using sqlite_item_Got by blast
  then have "''audit_pass'' \<in> set (map fst r)"
    by (simp add: record_of_keys)
  with r have "insert_rows results tb = Inl OperationalError"
    using assms(1) by (intro insert_rows_missing_column)
  with loop assms(2) show ?thesis
    by (simp add: fetch_to_sqlite_def to_sql_append_def)
qed

lemma fresh_table_rejects:
  assumes "fst (sqlite_loop prov yr ts [] []) \<noteq> []"
  shows "fst (fetch_to_sqlite prov yr ts (init_sqlite_db None)) = Some OperationalError"
proof -
  have "''audit_pass'' \<notin> set (t_cols financials_schema)"
    by (simp add: financials_schema_def)
  from table_without_audit_rejects [OF this assms] show ?thesis
    by (simp add: init_sqlite_db_def)
qed

text \<open>
  No exception of a turn ends a loop: every ticker of the list adds one record or one
  message in \<^verbatim>\<open>fetch_to_sqlite\<close>, and every ticker without a document adds one message in
  \<^verbatim>\<open>fetch_to_mongodb\<close>.
\<close>

lemma sqlite_loop_accounts:
  "length (fst (sqlite_loop prov yr ts acc msgs)) + length (snd (sqlite_loop prov yr ts acc msgs))
     = length acc + length msgs + length ts"
proof (induction ts arbitrary: acc msgs)
  case Nil
  then show ?case by simp
next
  case (Cons t ts)
  show ?case
  proof (cases "sqlite_item prov yr t")
    case Skipped
    with Cons [of acc "msgs @ [Warning_no_10k t]"] show ?thesis by simp
  next
    case (Failed e)
    with Cons [of acc "msgs @ [Error_for t e]"] show ?thesis by simp
  next
    case (Got d)
    with Cons [of "acc @ [d]" msgs] show ?thesis by simp
  qed
qed

lemma mongo_loop_messages:
  "length (snd (mongo_loop prov now ts coll msgs))
     = length msgs + length (filter (\<lambda>t. \<forall>d. mongo_item prov now t \<noteq> Got d) ts)"
proof (induction ts arbitrary: coll msgs)
  case Nil
  then show ?case by simp
next
  case (Cons t ts)
  show ?case
  proof (cases "mongo_item prov now t")
    case Skipped
    with Cons [of coll "msgs @ [Warning_no_10k t]"] show ?thesis by simp
  next
    case (Failed e)
    with Cons [of coll "msgs @ [Error_for t e]"] show ?thesis by simp
  next
    case (Got d)
    with Cons [of "update_one d coll" msgs] show ?thesis by simp
  qed
qed

text \<open>
  Claim C1 says that an ingestion never raises to its caller and that a list of one valid
  and one invalid identifier yields one persisted record. With the relational store, on
  the table that \<^verbatim>\<open>init_sqlite_db\<close> has just created, the run over a known and an unknown
  ticker reports the error of the unknown one, collects the record of the known one, and
  then raises out of \<^verbatim>\<open>to_sql\<close>, which is called outside the \<^verbatim>\<open>try\<close>: the record has the key
  \<^verbatim>\<open>audit_pass\<close>, and the table has no such column. Nothing is stored.
\<close>

theorem sqlite_ingest_raises:
  "fetch_to_sqlite prov0 2025 [''AAPL'', ''ZZZZ''] (init_sqlite_db None)
     = (Some OperationalError, init_sqlite_db None,
        [Error_for ''ZZZZ'' (ProviderError ''ZZZZ'')])
   \<and> row_count (init_sqlite_db None) = 0"
  by (simp add: sqlite_eval_defs)

text \<open>
  Claim C3 says that an ingestion of the same identifier in a new year appends a second
  row to the relational table. Starting from the table that \<^verbatim>\<open>init_sqlite_db\<close> creates,
  the run of one year raises and so does the run of the next, for the reason given at
  claim C1, and the table has no row; if the table holds the row of the year before, the
  run raises too and the table keeps its one row.
\<close>

theorem sqlite_reingest_raises:
  "fetch_to_sqlite prov0 2024 [''AAPL''] (init_sqlite_db None)
     = (Some OperationalError, init_sqlite_db None, [])
   \<and> fetch_to_sqlite prov0 2025 [''AAPL''] (init_sqlite_db None)
     = (Some OperationalError, init_sqlite_db None, [])
   \<and> row_count (init_sqlite_db None) = 0
   \<and> fetch_to_sqlite prov0 2025 [''AAPL''] (Some table_2024)
     = (Some OperationalError, Some table_2024, [])
   \<and> row_count (Some table_2024) = 1"
  by (simp add: sqlite_eval_defs table_2024_def)

text \<open>
  The other parts of claim C3 hold: an upsert keeps the tickers of the collection
  distinct, it overwrites the document of a ticker that is present and appends one for a
  ticker that is not, and an accepted insert leaves a table whose key is unique.
\<close>

lemma update_one_tickers:
  "set (map d_ticker (update_one d c)) = insert (d_ticker d) (set (map d_ticker c))"
  by (induction c) auto

lemma update_one_distinct:
  "distinct (map d_ticker c) \<Longrightarrow> distinct (map d_ticker (update_one d c))"
proof (induction c)
  case Nil
  then show ?case by simp
next
  case (Cons x xs)
  then show ?case
    using update_one_tickers [of d xs] by auto
qed

lemma update_one_overwrites:
  "d_ticker d \<in> set (map d_ticker c) \<Longrightarrow> length (update_one d c) = length c"
  by (induction c) auto

lemma update_one_inserts:
  "d_ticker d \<notin> set (map d_ticker c) \<Longrightarrow> update_one d c = c @ [d]"
  by (induction c) auto

lemma mongo_loop_distinct:
  "distinct (map d_ticker coll) \<Longrightarrow>
     distinct (map d_ticker (fst (mongo_loop prov now ts coll msgs)))"
proof (induction ts arbitrary: coll msgs)
  case Nil
  then show ?case by simp
next
  case (Cons t ts)
  then show ?case
    by (cases "mongo_item prov now t") (simp_all add: update_one_distinct)
qed


text \<open>
  Claim C9 says that the count reported as succeeded is the number of records persisted.
  With the document store, the run over a known and an unknown ticker upserts one
  document and reports two companies as synced: the message counts the tickers given,
  where \<^verbatim>\<open>fetch_to_sqlite\<close> counts the records collected.
\<close>

theorem mongo_reports_all_tickers:
  "fst (fetch_to_mongodb prov0 7 [''AAPL'', ''ZZZZ''] mongo0) = None
   \<and> fst (snd (fetch_to_mongodb prov0 7 [''AAPL'', ''ZZZZ''] mongo0)) 27017
        = Some [doc_of ''AAPL'' 7 aapl_filing 1]
   \<and> snd (snd (fetch_to_mongodb prov0 7 [''AAPL'', ''ZZZZ''] mongo0))
        = [Error_for ''ZZZZ'' (ProviderError ''ZZZZ''), Synced_to_mongodb 2]"
  by (simp add: mongo_eval_defs)

section \<open>Writing and reading back\<close>

lemma insert_rows_Inr:
  assumes "insert_rows rs tb = Inr tb'"
  shows "t_cols tb' = t_cols tb" and "t_pkey tb' = t_pkey tb"
    and "t_rows tb' = t_rows tb @ map (conform (t_cols tb)) rs"
    and "pkey_ok (t_pkey tb') (t_rows tb')"
    and "list_all (\<lambda>r. list_all (\<lambda>k. k \<in> set (t_cols tb)) (map fst r)) rs"
proof -
  from assms have ok: "list_all (\<lambda>r. list_all (\<lambda>k. k \<in> set (t_cols tb)) (map fst r)) rs"
    by (cases "list_all (\<lambda>r. list_all (\<lambda>k. k \<in> set (t_cols tb)) (map fst r)) rs")
       (simp_all add: insert_rows_def)
  from assms ok have pk: "pkey_ok (t_pkey tb) (t_rows tb @ map (conform (t_cols tb)) rs)"
    by (cases "pkey_ok (t_pkey tb) (t_rows tb @ map (conform (t_cols tb)) rs)")
       (simp_all add: insert_rows_def)
  from assms ok pk have tb': "tb' = tb\<lparr>t_rows := t_rows tb @ map (conform (t_cols tb)) rs\<rparr>"
    by (simp add: insert_rows_def)
  show "t_cols tb' = t_cols tb" "t_pkey tb' = t_pkey tb"
    "t_rows tb' = t_rows tb @ map (conform (t_cols tb)) rs"
    using tb' by simp_all
  show "pkey_ok (t_pkey tb') (t_rows tb')" using tb' pk by simp
  show "list_all (\<lambda>r. list_all (\<lambda>k. k \<in> set (t_cols tb)) (map fst r)) rs" by (rule ok)
qed

lemma first_port_update:
  "first_port m ps = Some p \<Longrightarrow> first_port (m(p := Some c)) ps = Some p"
proof (induction ps)
  case Nil
  then show ?case by simp
next
  case (Cons q ps)
  then show ?case by (cases "m q") (auto split: option.splits)
qed

lemma update_one_contains: "\<exists>i < length (update_one d c). update_one d c ! i = d"
proof (induction c)
  case Nil
  then show ?case by simp
next
  case (Cons x xs)
  show ?case
  proof (cases "d_ticker x = d_ticker d")
    case True
    then show ?thesis by auto
  next
    case False
    from Cons obtain i where "i < length (update_one d xs)" "update_one d xs ! i = d"
      by blast
    with False show ?thesis
      by (intro exI [of _ "Suc i"]) simp
  qed
qed

lemma nrows_normalize_docs: "nrows (normalize_docs docs) = length docs"
  by (simp add: normalize_docs_def)

lemma frame_row_normalize_docs:
  "i < length docs \<Longrightarrow> frame_row (normalize_docs docs) i = flat_row (docs ! i)"
  by (simp add: frame_row_def normalize_docs_def flat_row_def doc_equity_def)

lemma columns_normalize_docs:
  "map fst (normalize_docs docs) =
     [''ticker'', ''revenue'', ''net_income'', ''assets'', ''liabilities'', ''equity'']"
  by (simp add: normalize_docs_def)

lemma mongo_read_nonempty:
  assumes "get_mongo_client m = Some p" and "collection_at m p \<noteq> []"
  shows "fst (mongo_read m) = normalize_docs (collection_at m p)"
  using assms by (simp add: mongo_read_def Let_def)

lemma mongo_read_empty:
  assumes "get_mongo_client m = None \<or> (\<exists>p. get_mongo_client m = Some p \<and> collection_at m p = [])"
  shows "fst (mongo_read m) = []"
  using assms by (auto simp: mongo_read_def Let_def)

lemma columns_frame_of_table: "map fst (frame_of_table tb) = t_cols tb"
  by (simp add: frame_of_table_def comp_def)

lemma frame_row_frame_of_table:
  "i < length (t_rows tb) \<Longrightarrow> frame_row (frame_of_table tb) i = conform (t_cols tb) (t_rows tb ! i)"
  by (simp add: frame_row_def frame_of_table_def conform_def comp_def)

lemma map_of_conform:
  "k \<in> set cols \<Longrightarrow> map_of (conform cols r) k = Some (cell_of r k)"
  by (induction cols) (auto simp: conform_def)

lemma cell_of_conform:
  "k \<in> set cols \<Longrightarrow> cell_of (conform cols r) k = cell_of r k"
  by (simp add: cell_of_def [of "conform cols r"] map_of_conform)

lemma audit_sqlite_Some:
  "audit_sqlite (Some a) (Some l) (Some e) = Inr (if balanced a l e then 1 else 0)"
  by (simp add: audit_sqlite_def balanced_def)

lemma mongo_round_trip:
  assumes "prov t = Latest f" and "f_total_assets f = Some a"
      and "f_total_liabilities f = Some l" and "get_mongo_client m = Some p"
  shows "\<exists>i < nrows (fst (mongo_read (fst (snd (fetch_to_mongodb prov now [t] m))))).
           frame_row (fst (mongo_read (fst (snd (fetch_to_mongodb prov now [t] m))))) i
             = [(''ticker'', S t), (''revenue'', to_cell (f_revenue f)),
                (''net_income'', to_cell (f_net_income f)), (''assets'', N a),
                (''liabilities'', N l), (''equity'', N (fl_sub a l))]"
proof -
  let ?d = "doc_of t now f (if fl_lt (Fin 0) a then 1 else 0)"
  let ?c = "update_one ?d (collection_at m p)"
  let ?m = "m(p := Some ?c)"
  have item: "mongo_item prov now t = Got ?d"
    using assms(1,2) by (simp add: mongo_item_def)
  have fetch: "fst (snd (fetch_to_mongodb prov now [t] m)) = ?m"
    using assms(4) item by (simp add: fetch_to_mongodb_def)
  have client: "get_mongo_client ?m = Some p"
    using assms(4) unfolding get_mongo_client_def by (rule first_port_update)
  obtain i where i: "i < length ?c" "?c ! i = ?d"
    using update_one_contains by blast
  then have ne: "collection_at ?m p \<noteq> []"
    by (auto simp: collection_at_def)
  have read: "fst (mongo_read ?m) = normalize_docs ?c"
    using mongo_read_nonempty [OF client ne] by (simp add: collection_at_def)
  have "frame_row (normalize_docs ?c) i = flat_row ?d"
    using i by (simp add: frame_row_normalize_docs)
  also have "\<dots> = [(''ticker'', S t), (''revenue'', to_cell (f_revenue f)),
                (''net_income'', to_cell (f_net_income f)), (''assets'', N a),
                (''liabilities'', N l), (''equity'', N (fl_sub a l))]"
    using assms(2,3) by (simp add: flat_row_def doc_of_def to_cell_def)
  finally show ?thesis
    using i(1) by (auto simp: fetch read nrows_normalize_docs)
qed

lemma sqlite_round_trip:
  assumes "prov t = Latest f" and "f_total_assets f = Some a"
      and "f_total_liabilities f = Some l" and "f_total_equity f = Some e"
      and "fetch_to_sqlite prov yr [t] db = (None, db', msgs)"
  shows "\<exists>tb'. db' = Some tb' \<and> t_rows tb' \<noteq> []
           \<and> (\<forall>k \<in> set (map fst (record_of t yr f (if balanced a l e then 1 else 0))).
                 k \<in> set (t_cols tb')
                 \<and> cell_of (frame_row (fst (sqlite_read db')) (length (t_rows tb') - 1)) k
                     = cell_of (record_of t yr f (if balanced a l e then 1 else 0)) k)"
proof -
  let ?r = "record_of t yr f (if balanced a l e then 1 else 0)"
  have item: "sqlite_item prov yr t = Got ?r"
    using assms(1-4) by (simp add: sqlite_item_def audit_sqlite_Some)
  with assms(5) have app: "to_sql_append [?r] db = Inr db'"
    by (cases "to_sql_append [?r] db") (simp_all add: fetch_to_sqlite_def)
  show ?thesis
  proof (cases db)
    case None
    with app have db': "db' = Some \<lparr>t_cols = map fst ?r, t_pkey = [], t_rows = [?r]\<rparr>"
      by (simp add: to_sql_append_def)
    let ?tb = "\<lparr>t_cols = map fst ?r, t_pkey = [], t_rows = [?r]\<rparr>"
    have "frame_row (fst (sqlite_read db')) (length (t_rows ?tb) - 1) = conform (map fst ?r) ?r"
      using frame_row_frame_of_table [of 0 ?tb] by (simp add: db' sqlite_read_def)
    then show ?thesis
      by (simp add: db' cell_of_conform)
  next
    case (Some tb)
    with app obtain tb' where ins: "insert_rows [?r] tb = Inr tb'" and db': "db' = Some tb'"
      by (cases "insert_rows [?r] tb") (auto simp: to_sql_append_def)
    note facts = insert_rows_Inr [OF ins]
    have rows: "t_rows tb' = t_rows tb @ [conform (t_cols tb') ?r]"
      using facts(1,3) by simp
    have keys: "\<forall>k \<in> set (map fst ?r). k \<in> set (t_cols tb')"
      using facts(1,5) by (simp add: list_all_iff)
    have "frame_row (fst (sqlite_read db')) (length (t_rows tb') - 1)
            = conform (t_cols tb') (conform (t_cols tb') ?r)"
      using frame_row_frame_of_table [of "length (t_rows tb') - 1" tb'] rows
      by (simp add: db' sqlite_read_def)
    with keys rows db' show ?thesis
      by (simp add: cell_of_conform)
  qed
qed


lemma with_audit_eval:
  "fetch_to_sqlite prov0 2025 [''AAPL''] (Some table_with_audit)
     = (None,
        Some (table_with_audit\<lparr>t_rows :=
           [[(''ticker'', S ''AAPL''), (''year'', N (Fin 2025)), (''revenue'', N (Fin 100)),
             (''net_income'', N (Fin 10)), (''assets'', N (Fin 500)),
             (''liabilities'', N (Fin 200)), (''equity'', N (Fin 300)),
             (''audit_pass'', N (Fin 1))]]\<rparr>),
        [Saved_to_sqlite 1])"
  by (simp add: sqlite_eval_defs table_with_audit_def)

text \<open>
  Claim C2 says that a record read back from either store equals the record written in
  all monetary fields, the equity of the document store included. The document holds no
  equity: for a filing with assets 500, liabilities 200 and equity 250 the table read
  back has the equity 300.
\<close>

theorem equity_round_trip_counterexample:
  "f_total_equity acme_filing = Some (Fin 250)
   \<and> fst (mongo_read (fst (snd (fetch_to_mongodb prov0 7 [''ACME''] mongo0))))
       = [(''ticker'', [S ''ACME'']), (''revenue'', [N (Fin 100)]),
          (''net_income'', [N (Fin 10)]), (''assets'', [N (Fin 500)]),
          (''liabilities'', [N (Fin 200)]), (''equity'', [N (Fin 300)])]"
  by (simp add: mongo_eval_defs mongo_read_def normalize_docs_def doc_of_def doc_equity_def
      to_cell_def fl_sub_def)

text \<open>
  Claim C2, amended: let the filing of a ticker have numbers for its assets \<open>a\<close>,
  liabilities \<open>l\<close> and equity \<open>e\<close>. After \<^verbatim>\<open>fetch_to_mongodb\<close> on a reachable server, the
  table read back has a row with the ticker, the revenue, the net income, the assets and
  the liabilities of the filing, and with the equity \<open>a - l\<close>, whatever \<open>e\<close> is (the two
  agree exactly when \<open>e = a - l\<close>). Whenever \<^verbatim>\<open>fetch_to_sqlite\<close> returns without raising,
  the last row of the table read back has the ticker, the year and the five amounts of the
  filing, the equity being \<open>e\<close>.
\<close>

theorem round_trip:
  assumes "prov t = Latest f" and "f_total_assets f = Some a"
      and "f_total_liabilities f = Some l" and "f_total_equity f = Some e"
  shows "(get_mongo_client m = Some p \<longrightarrow>
            (\<exists>i < nrows (fst (mongo_read (fst (snd (fetch_to_mongodb prov now [t] m))))).
               frame_row (fst (mongo_read (fst (snd (fetch_to_mongodb prov now [t] m))))) i
                 = [(''ticker'', S t), (''revenue'', to_cell (f_revenue f)),
                    (''net_income'', to_cell (f_net_income f)), (''assets'', N a),
                    (''liabilities'', N l), (''equity'', N (fl_sub a l))]))
       \<and> (fetch_to_sqlite prov yr [t] db = (None, db', msgs) \<longrightarrow>
            (\<exists>tb'. db' = Some tb' \<and> t_rows tb' \<noteq> []
               \<and> cell_of (frame_row (fst (sqlite_read db')) (length (t_rows tb') - 1)) ''ticker''
                    = S t
               \<and> cell_of (frame_row (fst (sqlite_read db')) (length (t_rows tb') - 1)) ''year''
                    = N (Fin (of_int yr))
               \<and> cell_of (frame_row (fst (sqlite_read db')) (length (t_rows tb') - 1)) ''revenue''
                    = to_cell (f_revenue f)
               \<and> cell_of (frame_row (fst (sqlite_read db')) (length (t_rows tb') - 1))
                    ''net_income'' = to_cell (f_net_income f)
               \<and> cell_of (frame_row (fst (sqlite_read db')) (length (t_rows tb') - 1)) ''assets''
                    = N a
               \<and> cell_of (frame_row (fst (sqlite_read db')) (length (t_rows tb') - 1))
                    ''liabilities'' = N l
               \<and> cell_of (frame_row (fst (sqlite_read db')) (length (t_rows tb') - 1)) ''equity''
                    = N e))"
proof (intro conjI impI)
  assume "get_mongo_client m = Some p"
  from mongo_round_trip [where prov=prov and t=t, OF assms(1-3) this]
  show "\<exists>i < nrows (fst (mongo_read (fst (snd (fetch_to_mongodb prov now [t] m))))).
               frame_row (fst (mongo_read (fst (snd (fetch_to_mongodb prov now [t] m))))) i
                 = [(''ticker'', S t), (''revenue'', to_cell (f_revenue f)),
                    (''net_income'', to_cell (f_net_income f)), (''assets'', N a),
                    (''liabilities'', N l), (''equity'', N (fl_sub a l))]" .
next
  let ?r = "record_of t yr f (if balanced a l e then 1 else 0)"
  assume "fetch_to_sqlite prov yr [t] db = (None, db', msgs)"
  from sqlite_round_trip [where prov=prov and t=t, OF assms this]
  obtain tb' where tb': "db' = Some tb'" "t_rows tb' \<noteq> []"
    and cells: "\<forall>k \<in> set (map fst ?r). k \<in> set (t_cols tb')
         \<and> cell_of (frame_row (fst (sqlite_read db')) (length (t_rows tb') - 1)) k = cell_of ?r k"
    by blast
  have keys: "''ticker'' \<in> set (map fst ?r)" "''year'' \<in> set (map fst ?r)"
    "''revenue'' \<in> set (map fst ?r)" "''net_income'' \<in> set (map fst ?r)"
    "''assets'' \<in> set (map fst ?r)" "''liabilities'' \<in> set (map fst ?r)"
    "''equity'' \<in> set (map fst ?r)"
    by (simp_all add: record_of_keys)
  let ?row = "frame_row (fst (sqlite_read db')) (length (t_rows tb') - 1)"
  have "cell_of ?row ''ticker'' = S t" "cell_of ?row ''year'' = N (Fin (of_int yr))"
    "cell_of ?row ''revenue'' = to_cell (f_revenue f)"
    "cell_of ?row ''net_income'' = to_cell (f_net_income f)"
    "cell_of ?row ''assets'' = N a" "cell_of ?row ''liabilities'' = N l"
    "cell_of ?row ''equity'' = N e"
  proof -
    have c: "cell_of ?row k = cell_of ?r k" if "k \<in> set (map fst ?r)" for k
      using cells that by blast
    show "cell_of ?row ''ticker'' = S t"
      using c [OF keys(1)] by (simp only: record_of_cells)
    show "cell_of ?row ''year'' = N (Fin (of_int yr))"
      using c [OF keys(2)] by (simp only: record_of_cells)
    show "cell_of ?row ''revenue'' = to_cell (f_revenue f)"
      using c [OF keys(3)] by (simp only: record_of_cells)
    show "cell_of ?row ''net_income'' = to_cell (f_net_income f)"
      using c [OF keys(4)] by (simp only: record_of_cells)
    show "cell_of ?row ''assets'' = N a"
      using c [OF keys(5)] assms(2) by (simp only: record_of_cells to_cell_def to_fl.simps)
    show "cell_of ?row ''liabilities'' = N l"
      using c [OF keys(6)] assms(3) by (simp only: record_of_cells to_cell_def to_fl.simps)
    show "cell_of ?row ''equity'' = N e"
      using c [OF keys(7)] assms(4) by (simp only: record_of_cells to_cell_def to_fl.simps)
  qed
  with tb' show "\<exists>tb'. db' = Some tb' \<and> t_rows tb' \<noteq> []
               \<and> cell_of (frame_row (fst (sqlite_read db')) (length (t_rows tb') - 1)) ''ticker''
                    = S t
               \<and> cell_of (frame_row (fst (sqlite_read db')) (length (t_rows tb') - 1)) ''year''
                    = N (Fin (of_int yr))
               \<and> cell_of (frame_row (fst (sqlite_read db')) (length (t_rows tb') - 1)) ''revenue''
                    = to_cell (f_revenue f)
               \<and> cell_of (frame_row (fst (sqlite_read db')) (length (t_rows tb') - 1))
                    ''net_income'' = to_cell (f_net_income f)
               \<and> cell_of (frame_row (fst (sqlite_read db')) (length (t_rows tb') - 1)) ''assets''
                    = N a
               \<and> cell_of (frame_row (fst (sqlite_read db')) (length (t_rows tb') - 1))
                    ''liabilities'' = N l
               \<and> cell_of (frame_row (fst (sqlite_read db')) (length (t_rows tb') - 1)) ''equity''
                    = N e"
    by blast
qed

text \<open>
  The amended claim at the filing of the first company, with the empty collection and with
  a table that has the audit column.
\<close>

theorem round_trip_witness:
  "prov0 ''AAPL'' = Latest aapl_filing
   \<and> f_total_assets aapl_filing = Some (Fin 500)
   \<and> f_total_liabilities aapl_filing = Some (Fin 200)
   \<and> f_total_equity aapl_filing = Some (Fin 300)
   \<and> get_mongo_client mongo0 = Some 27017
   \<and> fst (fetch_to_sqlite prov0 2025 [''AAPL''] (Some table_with_audit)) = None
   \<and> (\<exists>i < nrows (fst (mongo_read (fst (snd (fetch_to_mongodb prov0 7 [''AAPL''] mongo0))))).
        frame_row (fst (mongo_read (fst (snd (fetch_to_mongodb prov0 7 [''AAPL''] mongo0))))) i
          = [(''ticker'', S ''AAPL''), (''revenue'', N (Fin 100)), (''net_income'', N (Fin 10)),
             (''assets'', N (Fin 500)), (''liabilities'', N (Fin 200)),
             (''equity'', N (Fin 300))])
   \<and> (\<exists>tb'. fst (snd (fetch_to_sqlite prov0 2025 [''AAPL''] (Some table_with_audit))) = Some tb'
        \<and> cell_of (frame_row (fst (sqlite_read (Some tb'))) (length (t_rows tb') - 1)) ''equity''
             = N (Fin 300))"
proof -
  have p: "prov0 ''AAPL'' = Latest aapl_filing" by (simp add: prov0_def)
  have a: "f_total_assets aapl_filing = Some (Fin 500)"
    and l: "f_total_liabilities aapl_filing = Some (Fin 200)"
    and e: "f_total_equity aapl_filing = Some (Fin 300)"
    by (simp_all add: aapl_filing_def)
  have c: "get_mongo_client mongo0 = Some 27017"
    by (simp add: get_mongo_client_def mongo0_def)
  have s: "fetch_to_sqlite prov0 2025 [''AAPL''] (Some table_with_audit)
             = (None, fst (snd (fetch_to_sqlite prov0 2025 [''AAPL''] (Some table_with_audit))),
                snd (snd (fetch_to_sqlite prov0 2025 [''AAPL''] (Some table_with_audit))))"
    by (simp add: with_audit_eval)
  from round_trip [where prov=prov0 and t="''AAPL''" and m=mongo0 and p=27017 and now=7
      and yr=2025 and db="Some table_with_audit"
      and db'="fst (snd (fetch_to_sqlite prov0 2025 [''AAPL''] (Some table_with_audit)))"
      and msgs="snd (snd (fetch_to_sqlite prov0 2025 [''AAPL''] (Some table_with_audit)))",
      OF p a l e] c s
  have "(\<exists>i < nrows (fst (mongo_read (fst (snd (fetch_to_mongodb prov0 7 [''AAPL''] mongo0))))).
        frame_row (fst (mongo_read (fst (snd (fetch_to_mongodb prov0 7 [''AAPL''] mongo0))))) i
          = [(''ticker'', S ''AAPL''), (''revenue'', to_cell (f_revenue aapl_filing)),
             (''net_income'', to_cell (f_net_income aapl_filing)),
             (''assets'', N (Fin 500)), (''liabilities'', N (Fin 200)),
             (''equity'', N (fl_sub (Fin 500) (Fin 200)))])
   \<and> (\<exists>tb'. fst (snd (fetch_to_sqlite prov0 2025 [''AAPL''] (Some table_with_audit))) = Some tb'
        \<and> cell_of (frame_row (fst (sqlite_read (Some tb'))) (length (t_rows tb') - 1)) ''equity''
             = N (Fin 300))"
    by auto
  then show ?thesis
    using p a l e c s by (simp add: aapl_filing_def to_cell_def fl_sub_def with_audit_eval)
qed

section \<open>The shape of the table read back\<close>

text \<open>
  Claim C6 says that the table read back has the same columns and values whichever store
  is selected. For the same filing stored in both, the relational read path yields seven
  columns, the year among them, and the document read path yields six, without the year.
\<close>

theorem read_shapes_counterexample:
  "map fst (fst (sqlite_read (Some table_aapl)))
     = [''ticker'', ''year'', ''revenue'', ''net_income'', ''assets'', ''liabilities'', ''equity'']
   \<and> map fst (fst (mongo_read mongo_aapl))
     = [''ticker'', ''revenue'', ''net_income'', ''assets'', ''liabilities'', ''equity'']
   \<and> fst (sqlite_read (Some table_aapl)) \<noteq> fst (mongo_read mongo_aapl)"
  by (simp add: sqlite_read_def frame_of_table_def table_aapl_def financials_schema_def
      mongo_read_def mongo_aapl_def get_mongo_client_def collection_at_def normalize_docs_def)

text \<open>
  Claim C6, amended: the relational read path yields the columns of the table
  \<^verbatim>\<open>financials\<close>, in their order, and per row the cells of the stored row. The document
  read path yields the six columns ticker, revenue, net_income, assets, liabilities and
  equity, per document its ticker and its four stored amounts and the equity
  \<open>total_assets - total_liabilities\<close>; it yields a table without columns when no server
  answers or the collection is empty. A table with a year column, as \<^verbatim>\<open>init_sqlite_db\<close>
  creates it, is therefore never read back with the columns of the document read path.
\<close>

theorem read_shapes:
  "map fst (fst (sqlite_read (Some tb))) = t_cols tb
   \<and> (\<forall>i < length (t_rows tb).
        frame_row (fst (sqlite_read (Some tb))) i = conform (t_cols tb) (t_rows tb ! i))
   \<and> (get_mongo_client m = Some p \<and> collection_at m p \<noteq> [] \<longrightarrow>
        map fst (fst (mongo_read m))
          = [''ticker'', ''revenue'', ''net_income'', ''assets'', ''liabilities'', ''equity'']
        \<and> nrows (fst (mongo_read m)) = length (collection_at m p)
        \<and> (\<forall>i < length (collection_at m p).
              frame_row (fst (mongo_read m)) i = flat_row (collection_at m p ! i)))
   \<and> (get_mongo_client m = None \<or> collection_at m p = [] \<and> get_mongo_client m = Some p \<longrightarrow>
        fst (mongo_read m) = [])
   \<and> (''year'' \<in> set (t_cols tb) \<longrightarrow>
        map fst (fst (sqlite_read (Some tb))) \<noteq> map fst (fst (mongo_read m)))"
proof -
  have sq: "fst (sqlite_read (Some tb)) = frame_of_table tb"
    by (simp add: sqlite_read_def)
  have mcols: "map fst (fst (mongo_read m)) = []
      \<or> map fst (fst (mongo_read m))
           = [''ticker'', ''revenue'', ''net_income'', ''assets'', ''liabilities'', ''equity'']"
    by (auto simp: mongo_read_def Let_def columns_normalize_docs split: option.splits)
  have "''year'' \<in> set (t_cols tb) \<longrightarrow>
        map fst (fst (sqlite_read (Some tb))) \<noteq> map fst (fst (mongo_read m))"
  proof
    assume y: "''year'' \<in> set (t_cols tb)"
    have "''year'' \<notin> set (map fst (fst (mongo_read m)))"
      using mcols by auto
    with y show "map fst (fst (sqlite_read (Some tb))) \<noteq> map fst (fst (mongo_read m))"
      by (auto simp: sq columns_frame_of_table)
  qed
  moreover have "get_mongo_client m = Some p \<and> collection_at m p \<noteq> [] \<longrightarrow>
        map fst (fst (mongo_read m))
          = [''ticker'', ''revenue'', ''net_income'', ''assets'', ''liabilities'', ''equity'']
        \<and> nrows (fst (mongo_read m)) = length (collection_at m p)
        \<and> (\<forall>i < length (collection_at m p).
              frame_row (fst (mongo_read m)) i = flat_row (collection_at m p ! i))"
    by (simp add: mongo_read_nonempty columns_normalize_docs nrows_normalize_docs
        frame_row_normalize_docs)
  moreover have "get_mongo_client m = None \<or> collection_at m p = [] \<and> get_mongo_client m = Some p
       \<longrightarrow> fst (mongo_read m) = []"
    by (auto simp: mongo_read_empty)
  ultimately show ?thesis
    by (simp add: sq columns_frame_of_table frame_row_frame_of_table)
qed

text \<open>The amended claim at the two stores holding the filing of the first company.\<close>

theorem read_shapes_witness:
  "0 < length (t_rows table_aapl)
   \<and> get_mongo_client mongo_aapl = Some 27017 \<and> collection_at mongo_aapl 27017 \<noteq> []
   \<and> ''year'' \<in> set (t_cols table_aapl)
   \<and> get_mongo_client (\<lambda>p. None) = None
   \<and> frame_row (fst (sqlite_read (Some table_aapl))) 0
        = conform (t_cols table_aapl) (t_rows table_aapl ! 0)
   \<and> frame_row (fst (mongo_read mongo_aapl)) 0 = flat_row (collection_at mongo_aapl 27017 ! 0)
   \<and> map fst (fst (sqlite_read (Some table_aapl))) \<noteq> map fst (fst (mongo_read mongo_aapl))
   \<and> fst (mongo_read (\<lambda>p. None)) = []"
proof -
  have t: "0 < length (t_rows table_aapl)" "''year'' \<in> set (t_cols table_aapl)"
    by (simp_all add: table_aapl_def financials_schema_def)
  have m: "get_mongo_client mongo_aapl = Some 27017" "collection_at mongo_aapl 27017 \<noteq> []"
    by (simp_all add: get_mongo_client_def mongo_aapl_def collection_at_def)
  have n: "get_mongo_client (\<lambda>p. None) = None"
    by (simp add: get_mongo_client_def)
  from read_shapes [of table_aapl mongo_aapl 27017] read_shapes [of table_aapl "\<lambda>p. None" 0]
    t m n
  show ?thesis by auto
qed

section \<open>The query box\<close>

text \<open>
  Claim C8 says that a statement other than a \<^verbatim>\<open>SELECT\<close> is rejected or leaves the number of
  stored rows as it was. The code passes the text to the engine unchecked, and a statement
  that the engine commits by itself takes effect: after \<^verbatim>\<open>DROP TABLE financials\<close> on a
  table of one row the user sees an error and the table is gone.
\<close>

theorem query_surface_counterexample:
  "row_count (Some table_2024) = 1
   \<and> sql_query_interface sqlite_exec ''DROP TABLE financials'' (Some table_2024)
        = (None, Invalid_sql TypeError)
   \<and> row_count (fst (sql_query_interface sqlite_exec ''DROP TABLE financials'' (Some table_2024)))
        = 0"
  by (simp add: sql_query_interface_def sqlite_exec_def row_count_def table_2024_def)

text \<open>
  Claim C8, amended: the query surface passes every text unchanged to the engine. The
  store is changed only when the engine has committed the statement by itself. A text
  that the engine rejects, such as one that does not parse, is reported as an error and
  the store is as before. A statement without a result set is reported as an error too;
  what it changed inside the open transaction, as \<^verbatim>\<open>DELETE FROM financials\<close> does, is
  discarded, because the connection is closed without a commit. A result set is shown
  with its number of rows.
\<close>

theorem query_surface:
  "(fst (sql_query_interface eng q db) \<noteq> db \<longrightarrow> (\<exists>db'. eng q db = Committed db'))
   \<and> (eng q db = Raised e \<longrightarrow> sql_query_interface eng q db = (db, Invalid_sql e))
   \<and> (eng q db = Pending db1 \<longrightarrow> sql_query_interface eng q db = (db, Invalid_sql TypeError))
   \<and> (eng q db = Committed db2 \<longrightarrow> sql_query_interface eng q db = (db2, Invalid_sql TypeError))
   \<and> (eng q db = Rows f \<longrightarrow> sql_query_interface eng q db = (db, Query_returned (nrows f)))"
  by (cases "eng q db") (simp_all add: sql_query_interface_def)

text \<open>
  The amended claim at a text that does not parse, at the \<^verbatim>\<open>DELETE\<close>, at the \<^verbatim>\<open>DROP\<close> and at a
  \<^verbatim>\<open>SELECT\<close>, on the table of one row.
\<close>

theorem query_surface_witness:
  "sqlite_exec ''SELEC * FROM financials'' (Some table_2024) = Raised OperationalError
   \<and> sql_query_interface sqlite_exec ''SELEC * FROM financials'' (Some table_2024)
        = (Some table_2024, Invalid_sql OperationalError)
   \<and> sqlite_exec ''DELETE FROM financials'' (Some table_2024)
        = Pending (Some (table_2024\<lparr>t_rows := []\<rparr>))
   \<and> sql_query_interface sqlite_exec ''DELETE FROM financials'' (Some table_2024)
        = (Some table_2024, Invalid_sql TypeError)
   \<and> sqlite_exec ''DROP TABLE financials'' (Some table_2024) = Committed None
   \<and> fst (sql_query_interface sqlite_exec ''DROP TABLE financials'' (Some table_2024))
        \<noteq> Some table_2024
   \<and> sqlite_exec ''SELECT * FROM financials'' (Some table_2024)
        = Rows (frame_of_table table_2024)
   \<and> sql_query_interface sqlite_exec ''SELECT * FROM financials'' (Some table_2024)
        = (Some table_2024, Query_returned 1)"
proof -
  have r: "sqlite_exec ''SELEC * FROM financials'' (Some table_2024) = Raised OperationalError"
    and p: "sqlite_exec ''DELETE FROM financials'' (Some table_2024)
              = Pending (Some (table_2024\<lparr>t_rows := []\<rparr>))"
    and c: "sqlite_exec ''DROP TABLE financials'' (Some table_2024) = Committed None"
    and s: "sqlite_exec ''SELECT * FROM financials'' (Some table_2024)
              = Rows (frame_of_table table_2024)"
    by (simp_all add: sqlite_exec_def)
  have n: "nrows (frame_of_table table_2024) = 1"
    by (simp add: frame_of_table_def table_2024_def financials_schema_def)
  from query_surface [of sqlite_exec "''SELEC * FROM financials''" "Some table_2024"
      OperationalError]
    query_surface [of sqlite_exec "''DELETE FROM financials''" "Some table_2024" _
      "Some (table_2024\<lparr>t_rows := []\<rparr>)"]
    query_surface [of sqlite_exec "''DROP TABLE financials''" "Some table_2024" _ _ None]
    query_surface [of sqlite_exec "''SELECT * FROM financials''" "Some table_2024" _ _ _
      "frame_of_table table_2024"]
    r p c s n
  show ?thesis by simp
qed

end
